theory Spec2Isabelle
  imports Complex_Main "HOL-Library.Multiset" "HOL-Library.Sublist"
begin

section \<open>JavaScript values\<close>

text \<open>
  The client is TypeScript; at run time its data are JavaScript values. A number is an
  IEEE double: not-a-number, an infinity, or a finite value, held here as the rational it
  denotes (the sign of zero is not kept). The result of an arithmetic operation on finite
  values is the exact result rounded to the nearest double, ties to the even significand:
  \<open>to_double\<close>.
\<close>

datatype jsnum = NaN | PosInf | NegInf | Finite rat

definition pow2 :: "int \<Rightarrow> rat" where
  "pow2 e = (if e \<ge> 0 then 2 ^ nat e else 1 / 2 ^ nat (- e))"

text \<open>The number of binary digits of a positive integer.\<close>

function bit_length :: "int \<Rightarrow> int" where
  "bit_length k = (if k \<le> 0 then 0 else 1 + bit_length (k div 2))"
  by pat_completeness auto
termination
  by (relation "measure nat") auto

declare bit_length.simps [simp del]

text \<open>
  For a positive rational \<open>q\<close>, the \<open>e\<close> with \<open>2^e \<le> q < 2^(e + 1)\<close>: the
  difference of the bit lengths of numerator and denominator, or one less.
\<close>

definition binary_exponent :: "rat \<Rightarrow> int" where
  "binary_exponent q =
     (let e = bit_length (fst (quotient_of q)) - bit_length (snd (quotient_of q))
      in if pow2 e \<le> q then e else e - 1)"

definition round_half_even :: "rat \<Rightarrow> int" where
  "round_half_even r =
     (let f = \<lfloor>r\<rfloor>; d = r - of_int f
      in if d < 1 / 2 then f else if d > 1 / 2 then f + 1 else if even f then f else f + 1)"

text \<open>
  A positive rational rounded to a double: 53 significant bits, the exponent not below
  that of the subnormal numbers, and infinity from \<open>2^1024\<close> on.
\<close>

definition round_positive :: "rat \<Rightarrow> jsnum" where
  "round_positive q =
     (let e = max (binary_exponent q) (- 1022);
          ulp = pow2 (e - 52);
          r = of_int (round_half_even (q / ulp)) * ulp
      in if r \<ge> pow2 1024 then PosInf else Finite r)"

fun js_negate :: "jsnum \<Rightarrow> jsnum" where
  "js_negate NaN = NaN"
| "js_negate PosInf = NegInf"
| "js_negate NegInf = PosInf"
| "js_negate (Finite q) = Finite (- q)"

definition to_double :: "rat \<Rightarrow> jsnum" where
  "to_double q =
     (if q = 0 then Finite 0
      else if q < 0 then js_negate (round_positive (- q))
      else round_positive q)"

datatype jsval =
    Undefined
  | Null
  | Bool bool
  | Num jsnum
  | Str string
  | Arr "jsval list"
  | Obj "(string \<times> jsval) list"

text \<open>
  What the language runtime supplies and the repository does not define: conversion of a
  string to a number, of an object to a number, of a value to a string, the time value of
  \<open>new Date(v)\<close> and of \<open>new Date()\<close>, \<open>JSON.parse\<close>, which either throws
  (\<open>Inl\<close>) or returns a value, \<open>JSON.stringify\<close>, and the message of the TypeError raised by reading a
  property of null or undefined.
\<close>

datatype js_exception = SyntaxError string | TypeError string

record js_host =
  StringToNumber :: "string \<Rightarrow> jsnum"
  ObjectToNumber :: "jsval \<Rightarrow> jsnum"
  ToString :: "jsval \<Rightarrow> string"
  DateValue :: "jsval \<Rightarrow> jsnum"
  DateNow :: jsnum
  JSON_parse :: "string \<Rightarrow> js_exception + jsval"
  JSON_stringify :: "jsval \<Rightarrow> string"
  TypeErrorMessage :: "jsval \<Rightarrow> string \<Rightarrow> string"

text \<open>Truthiness, as \<open>if (v)\<close>, \<open>!v\<close> and \<open>v || d\<close> read it.\<close>

fun truthy :: "jsval \<Rightarrow> bool" where
  "truthy Undefined = False"
| "truthy Null = False"
| "truthy (Bool b) = b"
| "truthy (Num NaN) = False"
| "truthy (Num (Finite q)) = (q \<noteq> 0)"
| "truthy (Num _) = True"
| "truthy (Str s) = (s \<noteq> [])"
| "truthy (Arr _) = True"
| "truthy (Obj _) = True"

definition js_or :: "jsval \<Rightarrow> jsval \<Rightarrow> jsval" where
  "js_or a b = (if truthy a then a else b)"

text \<open>
  Property read \<open>v.k\<close> on a value that is neither null nor undefined, for the keys the
  program reads (none of them is a built-in property of a primitive or of an array), and
  the optional chain \<open>v?.k\<close>.
\<close>

fun get_prop :: "jsval \<Rightarrow> string \<Rightarrow> jsval" where
  "get_prop (Obj fs) k = (case map_of fs k of None \<Rightarrow> Undefined | Some v \<Rightarrow> v)"
| "get_prop _ k = Undefined"

fun opt_prop :: "jsval \<Rightarrow> string \<Rightarrow> jsval" where
  "opt_prop Undefined k = Undefined"
| "opt_prop Null k = Undefined"
| "opt_prop v k = get_prop v k"

text \<open>\<open>Number(v)\<close> and \<open>isNaN\<close>.\<close>

fun Number :: "js_host \<Rightarrow> jsval \<Rightarrow> jsnum" where
  "Number h Undefined = NaN"
| "Number h Null = Finite 0"
| "Number h (Bool b) = Finite (if b then 1 else 0)"
| "Number h (Num n) = n"
| "Number h (Str s) = StringToNumber h s"
| "Number h v = ObjectToNumber h v"

definition isNaN :: "jsnum \<Rightarrow> bool" where
  "isNaN n = (n = NaN)"

text \<open>Subtraction and addition of doubles, as the sort comparators use them.\<close>

fun js_minus :: "jsnum \<Rightarrow> jsnum \<Rightarrow> jsnum" where
  "js_minus NaN _ = NaN"
| "js_minus _ NaN = NaN"
| "js_minus (Finite a) (Finite b) = to_double (a - b)"
| "js_minus PosInf PosInf = NaN"
| "js_minus NegInf NegInf = NaN"
| "js_minus PosInf _ = PosInf"
| "js_minus NegInf _ = NegInf"
| "js_minus (Finite a) PosInf = NegInf"
| "js_minus (Finite a) NegInf = PosInf"

fun js_plus :: "jsnum \<Rightarrow> jsnum \<Rightarrow> jsnum" where
  "js_plus NaN _ = NaN"
| "js_plus _ NaN = NaN"
| "js_plus (Finite a) (Finite b) = to_double (a + b)"
| "js_plus PosInf NegInf = NaN"
| "js_plus NegInf PosInf = NaN"
| "js_plus PosInf _ = PosInf"
| "js_plus NegInf _ = NegInf"
| "js_plus (Finite a) PosInf = PosInf"
| "js_plus (Finite a) NegInf = NegInf"

section \<open>Decimal rendering\<close>

definition digit_char :: "nat \<Rightarrow> char" where
  "digit_char d = ''0123456789'' ! (d mod 10)"

text \<open>The decimal digits of a natural number, as \<open>String(n)\<close> writes them.\<close>

fun decimal :: "nat \<Rightarrow> string" where
  "decimal n = (if n < 10 then [digit_char n] else decimal (n div 10) @ [digit_char n])"

declare decimal.simps [simp del]

text \<open>
  \<open>Number.prototype.toFixed(f)\<close>. On a finite value: the sign apart, the integer \<open>n\<close>
  nearest to \<open>x * 10^f\<close> (the larger one on a tie), written with \<open>f\<close> digits after the
  point; from \<open>10^21\<close> on, the runtime's own number-to-string conversion. On the others,
  their names.
\<close>

definition toFixed_abs :: "js_host \<Rightarrow> nat \<Rightarrow> rat \<Rightarrow> string" where
  "toFixed_abs h f x =
     (if x \<ge> 10 ^ 21 then ToString h (Num (Finite x))
      else
        let n = nat \<lfloor>x * 10 ^ f + 1 / 2\<rfloor>;
            m = decimal n
        in if f = 0 then m
           else
             let m' = (if length m \<le> f then replicate (f + 1 - length m) (CHR ''0'') @ m else m);
                 k = length m'
             in take (k - f) m' @ ''.'' @ drop (k - f) m')"

fun toFixed :: "js_host \<Rightarrow> nat \<Rightarrow> jsnum \<Rightarrow> string" where
  "toFixed h f NaN = ''NaN''"
| "toFixed h f PosInf = ''Infinity''"
| "toFixed h f NegInf = ''-Infinity''"
| "toFixed h f (Finite x) =
     (if x < 0 then ''-'' @ toFixed_abs h f (- x) else toFixed_abs h f x)"

section \<open>Gallery page: formatting\<close>

text \<open>
  The infinity sign of the source is one UTF-16 unit, U+221E; strings here are byte lists,
  so it is written as its UTF-8 bytes.
\<close>

definition infinity_sign :: string where
  "infinity_sign = [CHR 0xE2, CHR 0x88, CHR 0x9E]"

fun formatValue :: "js_host \<Rightarrow> jsval \<Rightarrow> string" where
  "formatValue h Null = ''--''"
| "formatValue h Undefined = ''--''"
| "formatValue h (Num NaN) = ''N/A''"
| "formatValue h (Num PosInf) = infinity_sign"
| "formatValue h (Num NegInf) = ''-'' @ infinity_sign"
| "formatValue h (Num (Finite v)) =
     (if v \<ge> 1000000 then toFixed h 1 (to_double (v / 1000000)) @ ''M''
      else if v \<ge> 1000 then toFixed h 1 (to_double (v / 1000)) @ ''K''
      else toFixed h 2 (Finite v))"
| "formatValue h v = ToString h v"

section \<open>HTTP outcomes\<close>

text \<open>
  An \<open>HttpErrorResponse\<close> as the handlers read it: \<open>status\<close>, \<open>message\<close>, and
  \<open>error\<close>, which is an \<open>ErrorEvent\<close> for a client-side failure and the response body
  otherwise. A thrown \<open>new Error(msg)\<close> is \<open>Error msg\<close>.
\<close>

datatype http_error_payload = ErrorEvent string | Body jsval

record HttpErrorResponse =
  http_status :: nat
  http_message :: string
  http_error :: http_error_payload

datatype js_error = Error string

datatype http_result = HttpOk jsval | HttpFail HttpErrorResponse

text \<open>\<open>error.error?.detail\<close>, and \<open>'text' + v\<close> for a value \<open>v\<close>.\<close>

definition error_detail :: "HttpErrorResponse \<Rightarrow> jsval" where
  "error_detail e =
     (case http_error e of ErrorEvent m \<Rightarrow> Undefined | Body b \<Rightarrow> opt_prop b ''detail'')"

fun js_concat :: "js_host \<Rightarrow> string \<Rightarrow> jsval \<Rightarrow> string" where
  "js_concat h s (Str t) = s @ t"
| "js_concat h s v = s @ ToString h v"

definition auth_required_message :: string where
  "auth_required_message = ''Authentication required. Please sign in.''"

section \<open>Outbound requests and visible effects\<close>

text \<open>
  A request names its method, its path below the API root and what it carries. The
  interceptor of the application adds the bearer token of the session, when there is one,
  to every request; it is not repeated here. A handler's effects are the requests it
  issues and the alerts it shows.
\<close>

datatype File = File string

datatype form_value = FileField File | TextField string

datatype http_request =
    HttpGet string
  | HttpPostJson string jsval
  | HttpPostForm string "(string \<times> form_value) list"
  | HttpDelete string

datatype effect = Request http_request | Alert string

text \<open>
  What the error callback of a subscriber receives when a call fails: the error thrown
  by the call's \<open>catchError\<close>, or, where the call has none, the transport's own
  \<open>HttpErrorResponse\<close>.
\<close>

datatype subscriber_error = Thrown js_error | Untranslated HttpErrorResponse

section \<open>Style-transfer service\<close>

record StyleTransferJob =
  jobId :: jsval
  status :: jsval
  progress :: jsval
  job_styleLoss :: jsval
  job_contentLoss :: jsval
  resultUrl :: jsval
  job_error :: jsval

text \<open>The \<open>catchError\<close> of \<open>transferStyle\<close>.\<close>

definition transferStyle_catchError :: "js_host \<Rightarrow> HttpErrorResponse \<Rightarrow> js_error" where
  "transferStyle_catchError h e =
     (if http_status e = 401 then Error auth_required_message
      else Error (js_concat h ''Failed to start style transfer: ''
                   (js_or (error_detail e) (Str (http_message e)))))"

definition transferStyle_failure :: "js_host \<Rightarrow> HttpErrorResponse \<Rightarrow> subscriber_error" where
  "transferStyle_failure h e = Thrown (transferStyle_catchError h e)"

text \<open>
  \<open>getJobStatus\<close>: the \<open>map\<close> over the response body, which raises a TypeError on a
  null body, and the \<open>catchError\<close> that rewraps every failure, the TypeError included.
\<close>

definition job_of_response :: "jsval \<Rightarrow> StyleTransferJob" where
  "job_of_response response =
     \<lparr> jobId = get_prop response ''job_id'',
       status = get_prop response ''status'',
       progress = get_prop response ''progress'',
       job_styleLoss = get_prop response ''style_loss'',
       job_contentLoss = get_prop response ''content_loss'',
       resultUrl = get_prop response ''result_url'',
       job_error = get_prop response ''error'' \<rparr>"

definition getJobStatus_map :: "js_host \<Rightarrow> jsval \<Rightarrow> string + StyleTransferJob" where
  "getJobStatus_map h response =
     (if response = Null \<or> response = Undefined
      then Inl (TypeErrorMessage h response ''job_id'')
      else Inr (job_of_response response))"

definition getJobStatus :: "js_host \<Rightarrow> http_result \<Rightarrow> js_error + StyleTransferJob" where
  "getJobStatus h r =
     (case r of
        HttpFail e \<Rightarrow> Inl (Error (''Failed to get job status: '' @ http_message e))
      | HttpOk response \<Rightarrow>
          (case getJobStatus_map h response of
             Inl msg \<Rightarrow> Inl (Error (''Failed to get job status: '' @ msg))
           | Inr job \<Rightarrow> Inr job))"

subsection \<open>The polling pipeline\<close>

text \<open>
  \<open>pollJobStatus\<close> is \<open>interval(pollInterval)\<close> piped through
  \<open>switchMap(() => getJobStatus(jobId))\<close> and \<open>takeWhile(p, true)\<close>. Its run is a
  sequence of events: a tick of the interval, or the arrival of the answer to the
  \<open>k\<close>-th status request. The operators are those of RxJS:
  \<^item> \<open>interval\<close> ticks for as long as it is subscribed;
  \<^item> \<open>switchMap\<close> subscribes to a new inner request on every tick and unsubscribes from
    the previous one, whose answer is then never delivered; an inner error ends the
    pipeline with that error;
  \<^item> \<open>takeWhile(p, true)\<close> passes every value on, and completes after the first value
    that fails \<open>p\<close>, which unsubscribes the interval.
\<close>

definition pollInterval_default :: nat where
  "pollInterval_default = 5000"

datatype poll_event = Tick | Response nat http_result

datatype poll_end = Completed | Errored js_error

record poll_state =
  ticks :: nat
  inflight :: "nat list"
  emitted :: "StyleTransferJob list"
  ended :: "poll_end option"

definition poll_init :: poll_state where
  "poll_init = \<lparr> ticks = 0, inflight = [], emitted = [], ended = None \<rparr>"

text \<open>The predicate of \<open>takeWhile\<close>.\<close>

definition still_running :: "StyleTransferJob \<Rightarrow> bool" where
  "still_running job = (status job = Str ''pending'' \<or> status job = Str ''processing'')"

fun poll_step :: "js_host \<Rightarrow> poll_state \<Rightarrow> poll_event \<Rightarrow> poll_state" where
  "poll_step h s Tick =
     (if ended s \<noteq> None then s
      else s\<lparr> ticks := ticks s + 1, inflight := [ticks s] \<rparr>)"
| "poll_step h s (Response k r) =
     (if ended s \<noteq> None \<or> k \<notin> set (inflight s) then s
      else
        (case getJobStatus h r of
           Inl err \<Rightarrow> s\<lparr> inflight := [], ended := Some (Errored err) \<rparr>
         | Inr job \<Rightarrow>
             if still_running job
             then s\<lparr> inflight := removeAll k (inflight s), emitted := emitted s @ [job] \<rparr>
             else s\<lparr> inflight := [], emitted := emitted s @ [job], ended := Some Completed \<rparr>))"

definition poll_run :: "js_host \<Rightarrow> poll_state \<Rightarrow> poll_event list \<Rightarrow> poll_state" where
  "poll_run h s es = foldl (poll_step h) s es"

definition pollJobStatus :: "js_host \<Rightarrow> poll_event list \<Rightarrow> poll_state" where
  "pollJobStatus h es = poll_run h poll_init es"

text \<open>
  What the subscriber has seen so far, whatever the order of ticks and answers: every job
  but the last is still running; when the loop has completed, the last one is not; while
  it is live, or when it has failed, all of them are.
\<close>

definition poll_invariant :: "poll_state \<Rightarrow> bool" where
  "poll_invariant s =
     (list_all still_running (butlast (emitted s))
      \<and> (case ended s of
            Some Completed \<Rightarrow> emitted s \<noteq> [] \<and> \<not> still_running (last (emitted s))
          | _ \<Rightarrow> list_all still_running (emitted s)))"

text \<open>
  The schedule in which every request is answered before the next tick: request \<open>k\<close>,
  its answer, request \<open>k + 1\<close>, its answer, and so on.
\<close>

fun answered_in_turn :: "nat \<Rightarrow> http_result list \<Rightarrow> poll_event list" where
  "answered_in_turn k [] = []"
| "answered_in_turn k (r # rs) = Tick # Response k r # answered_in_turn (Suc k) rs"

text \<open>A status answer carrying the given status, and a sample runtime.\<close>

definition status_body :: "string \<Rightarrow> jsval" where
  "status_body st = Obj [(''job_id'', Str ''job-1''), (''status'', Str st)]"

definition example_host :: js_host where
  "example_host =
     \<lparr> StringToNumber = (\<lambda>s. NaN), ObjectToNumber = (\<lambda>v. NaN), ToString = (\<lambda>v. []),
       DateValue = (\<lambda>v. NaN), DateNow = Finite 0,
       JSON_parse = (\<lambda>s. if s = ''null'' then Inr Null else Inl (SyntaxError s)),
       JSON_stringify = (\<lambda>v. []),
       TypeErrorMessage =
         (\<lambda>v k. ''Cannot read properties of ''
                  @ (if v = Null then ''null'' else ''undefined'')
                  @ '' (reading '' @ [CHR 0x27] @ k @ [CHR 0x27] @ '')'') \<rparr>"

section \<open>Session manager (AuthService)\<close>

text \<open>\<open>localStorage\<close>: a partial map from keys to strings.\<close>

type_synonym storage = "string \<rightharpoonup> string"

definition tokenKey :: string where
  "tokenKey = ''auth_token''"

definition userKey :: string where
  "userKey = ''auth_user''"

record LoginCredentials =
  cred_email :: "string option"
  cred_password :: string
  cred_masterPassword :: "string option"

text \<open>An optional string read as a condition: absent and empty are both falsy.\<close>

fun if_truthy :: "string option \<Rightarrow> string option" where
  "if_truthy None = None"
| "if_truthy (Some s) = (if s = [] then None else Some s)"

text \<open>
  \<open>login\<close> builds the body and posts it; nothing in it can stop the request. (What it
  does with the answer, storing the token and the user, is not needed below.)
\<close>

definition login_body :: "LoginCredentials \<Rightarrow> jsval" where
  "login_body credentials =
     Obj ((''password'', Str (cred_password credentials)) #
          (case if_truthy (cred_masterPassword credentials) of
             Some mp \<Rightarrow> [(''master_password'', Str mp)]
           | None \<Rightarrow>
               (case if_truthy (cred_email credentials) of
                  Some em \<Rightarrow> [(''email'', Str em)]
                | None \<Rightarrow> [])))"

definition login :: "LoginCredentials \<Rightarrow> http_request" where
  "login credentials = HttpPostJson ''/auth/login'' (login_body credentials)"

definition logout :: "storage \<Rightarrow> storage" where
  "logout st = (st(tokenKey := None))(userKey := None)"

definition getToken :: "storage \<Rightarrow> string option" where
  "getToken st = st tokenKey"

definition isAuthenticated :: "storage \<Rightarrow> bool" where
  "isAuthenticated st = (if_truthy (getToken st) \<noteq> None)"

text \<open>
  \<open>getStoredUser\<close>: the \<open>try\<close> around \<open>JSON.parse\<close> turns its exception into null.
  The result is whatever JSON value was stored. A result \<open>Inl\<close> would be an exception
  leaving the function.
\<close>

definition getStoredUser :: "js_host \<Rightarrow> storage \<Rightarrow> js_exception + jsval" where
  "getStoredUser h st =
     (case if_truthy (st userKey) of
        Some userStr \<Rightarrow>
          (case JSON_parse h userStr of
             Inr user \<Rightarrow> Inr user
           | Inl ex \<Rightarrow> Inr Null)
      | None \<Rightarrow> Inr Null)"

definition isAdmin :: "js_host \<Rightarrow> storage \<Rightarrow> js_exception + jsval" where
  "isAdmin h st =
     (case getStoredUser h st of
        Inl ex \<Rightarrow> Inl ex
      | Inr user \<Rightarrow> Inr (js_or (opt_prop user ''isMaster'') (Bool False)))"

text \<open>The service starts with the stored user as its current user.\<close>

definition initial_currentUser :: "js_host \<Rightarrow> storage \<Rightarrow> js_exception + jsval" where
  "initial_currentUser h st = getStoredUser h st"

definition getAuthHeaders :: "storage \<Rightarrow> (string \<times> string) list" where
  "getAuthHeaders st =
     (case if_truthy (getToken st) of
        Some token \<Rightarrow> [(''Authorization'', ''Bearer '' @ token)]
      | None \<Rightarrow> [])"

section \<open>Sign-in modal\<close>

record AuthModal =
  loginCredentials :: LoginCredentials
  isLoading :: bool
  loginError :: string

definition onLogin :: "AuthModal \<Rightarrow> AuthModal \<times> effect list" where
  "onLogin m =
     (let m1 = m\<lparr> loginError := [], isLoading := True \<rparr>;
          form = loginCredentials m
      in case if_truthy (cred_masterPassword form) of
           Some mp \<Rightarrow>
             (m1, [Request (login \<lparr> cred_email = None, cred_password = cred_password form,
                                   cred_masterPassword = Some mp \<rparr>)])
         | None \<Rightarrow>
             (case if_truthy (cred_email form) of
                Some em \<Rightarrow>
                  (m1, [Request (login \<lparr> cred_email = Some em,
                                        cred_password = cred_password form,
                                        cred_masterPassword = None \<rparr>)])
              | None \<Rightarrow>
                  (m1\<lparr> loginError := ''Please provide either email/password or master password'',
                       isLoading := False \<rparr>, [])))"

section \<open>Style-transfer page\<close>

record StyleTransferParams =
  p_styleWeight :: jsnum
  p_contentWeight :: jsnum
  p_numSteps :: jsnum
  p_layerWeights :: jsval

definition transferStyle :: "js_host \<Rightarrow> File \<Rightarrow> File \<Rightarrow> StyleTransferParams \<Rightarrow> http_request" where
  "transferStyle h contentImage styleImage params =
     HttpPostForm ''/transfer''
       [(''content_image'', FileField contentImage),
        (''style_image'', FileField styleImage),
        (''style_weight'', TextField (ToString h (Num (p_styleWeight params)))),
        (''content_weight'', TextField (ToString h (Num (p_contentWeight params)))),
        (''num_steps'', TextField (ToString h (Num (p_numSteps params)))),
        (''layer_weights'', TextField (JSON_stringify h (js_or (p_layerWeights params) (Obj []))))]"

record ImageFile =
  image_file :: "File option"

record StyleTransferPage =
  contentImage :: "ImageFile option"
  styleImage :: "ImageFile option"
  currentJob :: "StyleTransferJob option"
  isProcessing :: bool
  showAuthModal :: bool

text \<open>\<open>image?.file\<close>.\<close>

definition selected_file :: "ImageFile option \<Rightarrow> File option" where
  "selected_file img = (case img of None \<Rightarrow> None | Some i \<Rightarrow> image_file i)"

definition canApplyStyle :: "StyleTransferPage \<Rightarrow> bool" where
  "canApplyStyle p =
     (selected_file (contentImage p) \<noteq> None \<and> selected_file (styleImage p) \<noteq> None
      \<and> \<not> isProcessing p)"

definition onApplyStyle ::
  "js_host \<Rightarrow> storage \<Rightarrow> StyleTransferPage \<Rightarrow> StyleTransferParams
     \<Rightarrow> StyleTransferPage \<times> effect list" where
  "onApplyStyle h st p params =
     (case selected_file (contentImage p) of
        None \<Rightarrow> (p, [])
      | Some c \<Rightarrow>
          (case selected_file (styleImage p) of
             None \<Rightarrow> (p, [])
           | Some s \<Rightarrow>
               if \<not> isAuthenticated st then (p\<lparr> showAuthModal := True \<rparr>, [])
               else (p\<lparr> isProcessing := True \<rparr>, [Request (transferStyle h c s params)])))"

text \<open>
  The callbacks that \<open>onApplyStyle\<close> installs: on the job returned by the submission
  (polling starts there), on each polled job, and on the two failures.
\<close>

definition onTransferStarted :: "StyleTransferPage \<Rightarrow> StyleTransferJob \<Rightarrow> StyleTransferPage" where
  "onTransferStarted p job = p\<lparr> currentJob := Some job \<rparr>"

definition onPolledJob :: "StyleTransferPage \<Rightarrow> StyleTransferJob \<Rightarrow> StyleTransferPage" where
  "onPolledJob p updatedJob =
     (let p1 = p\<lparr> currentJob := Some updatedJob \<rparr>
      in if status updatedJob = Str ''completed'' \<or> status updatedJob = Str ''failed''
         then p1\<lparr> isProcessing := False \<rparr> else p1)"

definition onPollError :: "StyleTransferPage \<Rightarrow> StyleTransferPage" where
  "onPollError p =
     p\<lparr> isProcessing := False,
        currentJob := map_option
          (\<lambda>job. job\<lparr> status := Str ''failed'',
                       job_error := Str ''Failed to get job status updates'' \<rparr>)
          (currentJob p) \<rparr>"

definition onTransferError :: "StyleTransferPage \<Rightarrow> StyleTransferPage" where
  "onTransferError p =
     p\<lparr> isProcessing := False,
        currentJob := Some \<lparr> jobId = Str ''error'', status = Str ''failed'',
                             progress = Undefined, job_styleLoss = Undefined,
                             job_contentLoss = Undefined, resultUrl = Undefined,
                             job_error = Str ''Failed to start style transfer'' \<rparr> \<rparr>"

section \<open>Admin page\<close>

text \<open>
  The page makes seven calls: \<open>loadRequests\<close>, \<open>loadUsers\<close>, \<open>approveRequest\<close>,
  \<open>confirmReject\<close>, \<open>deleteRequest\<close>, \<open>createUser\<close> and \<open>deleteUser\<close>. Each calls the
  transport directly and subscribes with no \<open>catchError\<close> in between, so its error
  callback receives the \<open>HttpErrorResponse\<close> as it is (\<open>_failure\<close>). Each callback
  (\<open>_error\<close>) clears its busy flag; the one of \<open>createUser\<close> shows an alert before
  that. (Each also writes the error to the console; console output is left out of the
  model, here as in the other components.)
\<close>

record AdminPage =
  requests :: jsval
  users :: jsval
  isLoadingRequests :: bool
  isLoadingUsers :: bool
  admin_isProcessing :: bool

definition loadRequests :: "AdminPage \<Rightarrow> AdminPage \<times> effect list" where
  "loadRequests a = (a\<lparr> isLoadingRequests := True \<rparr>, [Request (HttpGet ''/auth/requests'')])"

definition loadRequests_failure :: "HttpErrorResponse \<Rightarrow> subscriber_error" where
  "loadRequests_failure e = Untranslated e"

definition loadRequests_error :: "AdminPage \<Rightarrow> subscriber_error \<Rightarrow> AdminPage" where
  "loadRequests_error a err = a\<lparr> isLoadingRequests := False \<rparr>"

definition loadUsers :: "AdminPage \<Rightarrow> AdminPage \<times> effect list" where
  "loadUsers a = (a\<lparr> isLoadingUsers := True \<rparr>, [Request (HttpGet ''/auth/users'')])"

definition loadUsers_failure :: "HttpErrorResponse \<Rightarrow> subscriber_error" where
  "loadUsers_failure e = Untranslated e"

definition loadUsers_error :: "AdminPage \<Rightarrow> subscriber_error \<Rightarrow> AdminPage" where
  "loadUsers_error a err = a\<lparr> isLoadingUsers := False \<rparr>"

definition approveRequest_failure :: "HttpErrorResponse \<Rightarrow> subscriber_error" where
  "approveRequest_failure e = Untranslated e"

definition approveRequest_error :: "AdminPage \<Rightarrow> subscriber_error \<Rightarrow> AdminPage" where
  "approveRequest_error a err = a\<lparr> admin_isProcessing := False \<rparr>"

definition confirmReject_failure :: "HttpErrorResponse \<Rightarrow> subscriber_error" where
  "confirmReject_failure e = Untranslated e"

definition confirmReject_error :: "AdminPage \<Rightarrow> subscriber_error \<Rightarrow> AdminPage" where
  "confirmReject_error a err = a\<lparr> admin_isProcessing := False \<rparr>"

definition deleteRequest_failure :: "HttpErrorResponse \<Rightarrow> subscriber_error" where
  "deleteRequest_failure e = Untranslated e"

definition deleteRequest_error :: "AdminPage \<Rightarrow> subscriber_error \<Rightarrow> AdminPage" where
  "deleteRequest_error a err = a\<lparr> admin_isProcessing := False \<rparr>"

definition deleteUser_failure :: "HttpErrorResponse \<Rightarrow> subscriber_error" where
  "deleteUser_failure e = Untranslated e"

definition deleteUser_error :: "AdminPage \<Rightarrow> subscriber_error \<Rightarrow> AdminPage" where
  "deleteUser_error a err = a\<lparr> admin_isProcessing := False \<rparr>"

text \<open>
  \<open>error.error?.detail\<close> as the callback of \<open>createUser\<close> reads it (a thrown
  \<open>Error\<close> has no \<open>error\<close> property), and the text that \<open>alert(v)\<close> shows.
\<close>

fun failure_detail :: "subscriber_error \<Rightarrow> jsval" where
  "failure_detail (Untranslated e) = error_detail e"
| "failure_detail (Thrown err) = Undefined"

definition createUser_failure :: "HttpErrorResponse \<Rightarrow> subscriber_error" where
  "createUser_failure e = Untranslated e"

definition createUser_error ::
  "js_host \<Rightarrow> AdminPage \<Rightarrow> subscriber_error \<Rightarrow> AdminPage \<times> effect list" where
  "createUser_error h a err =
     (a\<lparr> admin_isProcessing := False \<rparr>,
      [Alert (js_concat h [] (js_or (failure_detail err) (Str ''Failed to create user'')))])"

section \<open>Gallery service\<close>

text \<open>
  A gallery item as \<open>mapGalleryItem\<close> builds it. The fields it passes through
  \<open>ensureNumber\<close> are numbers; the timestamp is a \<open>Date\<close>, held as its time value;
  the others keep whatever value the service sent, or their default.
\<close>

record Parameters =
  styleWeight :: jsnum
  contentWeight :: jsnum
  numSteps :: jsval
  layerWeights :: jsval

record GalleryItem =
  itemId :: jsval
  timestamp :: jsnum
  contentImageUrl :: jsval
  styleImageUrl :: jsval
  resultImageUrl :: jsval
  bestLoss :: jsnum
  styleLoss :: jsnum
  contentLoss :: jsnum
  processingTime :: jsnum
  parameters :: Parameters

definition ensureNumber :: "js_host \<Rightarrow> jsval \<Rightarrow> jsnum" where
  "ensureNumber h v =
     (if v = Null \<or> v = Undefined \<or> isNaN (Number h v) then Finite 0 else Number h v)"

text \<open>
  \<open>mapGalleryItem\<close>; \<open>None\<close> is the empty object it returns for a falsy raw item.
\<close>

definition mapGalleryItem :: "js_host \<Rightarrow> jsval \<Rightarrow> GalleryItem option" where
  "mapGalleryItem h item =
     (if \<not> truthy item then None
      else Some
        \<lparr> itemId = js_or (get_prop item ''id'') (Str []),
          timestamp = (if truthy (get_prop item ''timestamp'')
                       then DateValue h (get_prop item ''timestamp'') else DateNow h),
          contentImageUrl = js_or (get_prop item ''contentImageUrl'') (Str []),
          styleImageUrl = js_or (get_prop item ''styleImageUrl'') (Str []),
          resultImageUrl = js_or (get_prop item ''resultImageUrl'') (Str []),
          bestLoss = ensureNumber h (get_prop item ''bestLoss''),
          styleLoss = ensureNumber h (get_prop item ''styleLoss''),
          contentLoss = ensureNumber h (get_prop item ''contentLoss''),
          processingTime = ensureNumber h (get_prop item ''processingTime''),
          parameters =
            \<lparr> styleWeight =
                ensureNumber h (opt_prop (get_prop item ''parameters'') ''styleWeight''),
              contentWeight =
                ensureNumber h (opt_prop (get_prop item ''parameters'') ''contentWeight''),
              numSteps =
                js_or (opt_prop (get_prop item ''parameters'') ''numSteps'') (Num (Finite 300)),
              layerWeights =
                js_or (opt_prop (get_prop item ''parameters'') ''layerWeights'') (Obj []) \<rparr> \<rparr>)"

definition handleError :: "HttpErrorResponse \<Rightarrow> js_error" where
  "handleError e =
     (case http_error e of
        ErrorEvent m \<Rightarrow> Error (''Error: '' @ m)
      | Body b \<Rightarrow>
          Error (''Error Code: '' @ decimal (http_status e) @ [CHR 0x0A] @ ''Message: ''
                 @ http_message e))"

definition getGalleryItems :: "js_host \<Rightarrow> http_result \<Rightarrow> js_error + GalleryItem option list" where
  "getGalleryItems h r =
     (case r of
        HttpFail e \<Rightarrow> Inl (handleError e)
      | HttpOk items \<Rightarrow>
          (case items of
             Arr xs \<Rightarrow> Inr (map (mapGalleryItem h) xs)
           | _ \<Rightarrow> Inr []))"

definition deleteGalleryItem :: "string \<Rightarrow> http_request" where
  "deleteGalleryItem ident = HttpDelete (''/gallery/'' @ ident)"

definition deleteGalleryItem_catchError :: "HttpErrorResponse \<Rightarrow> js_error" where
  "deleteGalleryItem_catchError e =
     (if http_status e = 401 then Error auth_required_message else handleError e)"

definition deleteGalleryItem_failure :: "HttpErrorResponse \<Rightarrow> subscriber_error" where
  "deleteGalleryItem_failure e = Thrown (deleteGalleryItem_catchError e)"

section \<open>Gallery page\<close>

text \<open>
  The page holds the base collection, the derived view, the sort key and the filter key.
  An entry of the collection is what \<open>mapGalleryItem\<close> returned: an item, or the empty
  object (\<open>None\<close>), every property of which reads as undefined. Reading a property of
  the missing \<open>parameters\<close> of the empty object raises a TypeError. The label of a pair
  of weights comes from the weight-preset service, which is outside the sources at hand
  and is a parameter here.
\<close>

type_synonym gallery_entry = "GalleryItem option"

record GalleryPage =
  allGalleryItems :: "gallery_entry list"
  filteredItems :: "gallery_entry list"
  sortOption :: string
  activePresetFilter :: string
  gallery_showAuthModal :: bool

type_synonym preset_labels = "jsnum \<Rightarrow> jsnum \<Rightarrow> string"

definition getBalanceLabel :: "preset_labels \<Rightarrow> jsnum \<Rightarrow> jsnum \<Rightarrow> string" where
  "getBalanceLabel getPresetLabel sw cw = getPresetLabel sw cw"

text \<open>\<open>item.id\<close>.\<close>

definition entry_id :: "gallery_entry \<Rightarrow> jsval" where
  "entry_id item = (case item of None \<Rightarrow> Undefined | Some g \<Rightarrow> itemId g)"

text \<open>
  \<open>new Date(item.timestamp).getTime()\<close>; the date made of undefined is invalid and its
  time value is NaN.
\<close>

definition entry_time :: "gallery_entry \<Rightarrow> jsnum" where
  "entry_time item = (case item of None \<Rightarrow> NaN | Some g \<Rightarrow> timestamp g)"

text \<open>
  \<open>item.styleLoss + item.contentLoss\<close>, and \<open>item.processingTime\<close> as an operand of a
  subtraction: undefined counts as NaN in both.
\<close>

definition totalLoss :: "gallery_entry \<Rightarrow> jsnum" where
  "totalLoss item =
     (case item of None \<Rightarrow> NaN | Some g \<Rightarrow> js_plus (styleLoss g) (contentLoss g))"

definition entry_processingTime :: "gallery_entry \<Rightarrow> jsnum" where
  "entry_processingTime item = (case item of None \<Rightarrow> NaN | Some g \<Rightarrow> processingTime g)"

text \<open>\<open>item.parameters.numSteps\<close> as an operand of a subtraction.\<close>

definition entry_steps :: "js_host \<Rightarrow> gallery_entry \<Rightarrow> js_exception + jsnum" where
  "entry_steps h item =
     (case item of
        None \<Rightarrow> Inl (TypeError (TypeErrorMessage h Undefined ''numSteps''))
      | Some g \<Rightarrow> Inr (Number h (numSteps (parameters g))))"

text \<open>
  The label computed in the filter callback:
  \<open>getBalanceLabel(item.parameters.styleWeight, item.parameters.contentWeight)\<close>.
\<close>

definition itemPresetLabel ::
  "js_host \<Rightarrow> preset_labels \<Rightarrow> gallery_entry \<Rightarrow> js_exception + string" where
  "itemPresetLabel h getPresetLabel item =
     (case item of
        None \<Rightarrow> Inl (TypeError (TypeErrorMessage h Undefined ''styleWeight''))
      | Some g \<Rightarrow>
          Inr (getBalanceLabel getPresetLabel (styleWeight (parameters g))
                 (contentWeight (parameters g))))"

text \<open>
  \<open>Array.prototype.filter\<close> with a callback that may raise: the entries are visited in
  order and the first exception ends the call.
\<close>

fun array_filter :: "('a \<Rightarrow> js_exception + bool) \<Rightarrow> 'a list \<Rightarrow> js_exception + 'a list" where
  "array_filter keep [] = Inr []"
| "array_filter keep (x # xs) =
     (case keep x of
        Inl ex \<Rightarrow> Inl ex
      | Inr b \<Rightarrow>
          (case array_filter keep xs of
             Inl ex \<Rightarrow> Inl ex
           | Inr ys \<Rightarrow> Inr (if b then x # ys else ys)))"

text \<open>
  \<open>Array.prototype.sort\<close> with a comparator that may raise: stable, an element moves
  behind another only when the comparator is positive on the pair (a comparator value of
  NaN counts as zero), and an exception of the comparator ends the call and leaves the
  array as it was. For a consistent comparator the order is the one every engine
  produces; for an inconsistent one (a NaN among the keys) the language leaves the order
  to the engine, and the order here is one of those allowed. The contents of the result
  are the same in every engine.
\<close>

fun js_positive :: "jsnum \<Rightarrow> bool" where
  "js_positive PosInf = True"
| "js_positive (Finite q) = (q > 0)"
| "js_positive _ = False"

fun sort_insert ::
  "('a \<Rightarrow> 'a \<Rightarrow> js_exception + jsnum) \<Rightarrow> 'a \<Rightarrow> 'a list \<Rightarrow> js_exception + 'a list" where
  "sort_insert cmp x [] = Inr [x]"
| "sort_insert cmp x (y # ys) =
     (case cmp x y of
        Inl ex \<Rightarrow> Inl ex
      | Inr v \<Rightarrow>
          if js_positive v
          then (case sort_insert cmp x ys of Inl ex \<Rightarrow> Inl ex | Inr zs \<Rightarrow> Inr (y # zs))
          else Inr (x # y # ys))"

fun array_sort ::
  "('a \<Rightarrow> 'a \<Rightarrow> js_exception + jsnum) \<Rightarrow> 'a list \<Rightarrow> js_exception + 'a list" where
  "array_sort cmp [] = Inr []"
| "array_sort cmp (x # xs) =
     (case array_sort cmp xs of Inl ex \<Rightarrow> Inl ex | Inr ys \<Rightarrow> sort_insert cmp x ys)"

text \<open>
  The comparators of \<open>applySortingAndFilters\<close>. In \<open>b.parameters.numSteps -
  a.parameters.numSteps\<close> the left operand is evaluated first.
\<close>

definition comparator ::
  "js_host \<Rightarrow> string \<Rightarrow> gallery_entry \<Rightarrow> gallery_entry \<Rightarrow> js_exception + jsnum" where
  "comparator h key a b =
     (if key = ''newest'' then Inr (js_minus (entry_time b) (entry_time a))
      else if key = ''oldest'' then Inr (js_minus (entry_time a) (entry_time b))
      else if key = ''lossAsc'' then Inr (js_minus (totalLoss a) (totalLoss b))
      else if key = ''lossDesc'' then Inr (js_minus (totalLoss b) (totalLoss a))
      else if key = ''processingTime''
        then Inr (js_minus (entry_processingTime b) (entry_processingTime a))
      else if key = ''steps''
        then (case entry_steps h b of
                Inl ex \<Rightarrow> Inl ex
              | Inr sb \<Rightarrow>
                  (case entry_steps h a of
                     Inl ex \<Rightarrow> Inl ex
                   | Inr sa \<Rightarrow> Inr (js_minus sb sa)))
      else Inr (js_minus (entry_time b) (entry_time a)))"

text \<open>
  \<open>applySortingAndFilters\<close> returns the page and the exception that left it, if any.
  An exception in the filter leaves the view as it was; one in the sort leaves the view
  filtered and unsorted.
\<close>

definition applySortingAndFilters ::
  "js_host \<Rightarrow> preset_labels \<Rightarrow> GalleryPage \<Rightarrow> GalleryPage \<times> js_exception option" where
  "applySortingAndFilters h getPresetLabel p =
     (case (if activePresetFilter p = ''all'' then Inr (allGalleryItems p)
            else array_filter
                   (\<lambda>item. case itemPresetLabel h getPresetLabel item of
                             Inl ex \<Rightarrow> Inl ex
                           | Inr l \<Rightarrow> Inr (l = activePresetFilter p))
                   (allGalleryItems p)) of
        Inl ex \<Rightarrow> (p, Some ex)
      | Inr filtered \<Rightarrow>
          (case array_sort (comparator h (sortOption p)) filtered of
             Inl ex \<Rightarrow> (p\<lparr> filteredItems := filtered \<rparr>, Some ex)
           | Inr ordered \<Rightarrow> (p\<lparr> filteredItems := ordered \<rparr>, None)))"

definition filterByPreset ::
  "js_host \<Rightarrow> preset_labels \<Rightarrow> GalleryPage \<Rightarrow> string \<Rightarrow> GalleryPage \<times> js_exception option" where
  "filterByPreset h getPresetLabel p preset =
     applySortingAndFilters h getPresetLabel (p\<lparr> activePresetFilter := preset \<rparr>)"

text \<open>The success callback of \<open>loadGalleryItems\<close>.\<close>

definition loadGalleryItems_next ::
  "js_host \<Rightarrow> preset_labels \<Rightarrow> GalleryPage \<Rightarrow> gallery_entry list
     \<Rightarrow> GalleryPage \<times> js_exception option" where
  "loadGalleryItems_next h getPresetLabel p items =
     applySortingAndFilters h getPresetLabel (p\<lparr> allGalleryItems := items \<rparr>)"

text \<open>
  The filter as the specification words it, for an item: the key 'all' passes every item,
  any other key passes the items whose label equals it.
\<close>

definition item_label :: "preset_labels \<Rightarrow> GalleryItem \<Rightarrow> string" where
  "item_label getPresetLabel g =
     getPresetLabel (styleWeight (parameters g)) (contentWeight (parameters g))"

definition passes_filter :: "preset_labels \<Rightarrow> string \<Rightarrow> GalleryItem \<Rightarrow> bool" where
  "passes_filter getPresetLabel key g = (key = ''all'' \<or> item_label getPresetLabel g = key)"

text \<open>
  \<open>deleteItem\<close>, in three parts: the handler itself, which needs the session and the
  user's answer to the confirmation; the callback on success; the callback on failure.
\<close>

definition deleteItem :: "storage \<Rightarrow> bool \<Rightarrow> GalleryPage \<Rightarrow> string \<Rightarrow> GalleryPage \<times> effect list" where
  "deleteItem st confirmed p ident =
     (if \<not> isAuthenticated st then (p\<lparr> gallery_showAuthModal := True \<rparr>, [])
      else if confirmed then (p, [Request (deleteGalleryItem ident)])
      else (p, []))"

definition deleteItem_next ::
  "js_host \<Rightarrow> preset_labels \<Rightarrow> GalleryPage \<Rightarrow> string \<Rightarrow> GalleryPage \<times> js_exception option" where
  "deleteItem_next h getPresetLabel p ident =
     applySortingAndFilters h getPresetLabel
       (p\<lparr> allGalleryItems := filter (\<lambda>item. entry_id item \<noteq> Str ident) (allGalleryItems p) \<rparr>)"

definition deleteItem_error :: "GalleryPage \<Rightarrow> js_error \<Rightarrow> GalleryPage \<times> effect list" where
  "deleteItem_error p err =
     (case err of
        Error message \<Rightarrow>
          if sublist ''Authentication required'' message
          then (p\<lparr> gallery_showAuthModal := True \<rparr>, [])
          else (p, [Alert (''Failed to delete item: ''
                           @ (if message = [] then ''Unknown error'' else message))]))"

section \<open>Sample inputs\<close>

text \<open>Concrete inputs on which the theorems below are run.\<close>

definition unauthorized :: HttpErrorResponse where
  "unauthorized = \<lparr> http_status = 401, http_message = ''Http failure response: 401'',
                    http_error = Body (Obj [(''detail'', Str ''Not authenticated'')]) \<rparr>"

definition example_admin :: AdminPage where
  "example_admin = \<lparr> requests = Arr [], users = Arr [], isLoadingRequests = True,
                      isLoadingUsers = False, admin_isProcessing = True \<rparr>"

definition example_params :: StyleTransferParams where
  "example_params = \<lparr> p_styleWeight = Finite 1000000, p_contentWeight = Finite 1,
                      p_numSteps = Finite 300, p_layerWeights = Undefined \<rparr>"

definition page_in_progress :: StyleTransferPage where
  "page_in_progress =
     \<lparr> contentImage = Some \<lparr> image_file = Some (File ''content.png'') \<rparr>,
       styleImage = Some \<lparr> image_file = Some (File ''style.png'') \<rparr>,
       currentJob = None, isProcessing = True, showAuthModal = False \<rparr>"

definition example_item :: "string \<Rightarrow> rat \<Rightarrow> rat \<Rightarrow> GalleryItem" where
  "example_item ident sw cw =
     \<lparr> itemId = Str ident, timestamp = Finite 0, contentImageUrl = Str [],
       styleImageUrl = Str [], resultImageUrl = Str [], bestLoss = Finite 0,
       styleLoss = Finite 0, contentLoss = Finite 0, processingTime = Finite 0,
       parameters = \<lparr> styleWeight = Finite sw, contentWeight = Finite cw,
                      numSteps = Num (Finite 300), layerWeights = Obj [] \<rparr> \<rparr>"

definition example_labels :: preset_labels where
  "example_labels sw cw = (if sw = cw then ''Balanced'' else ''Custom'')"

definition example_items :: "GalleryItem list" where
  "example_items = [example_item ''a'' 1 1, example_item ''b'' 5 1, example_item ''c'' 2 2]"

definition example_page :: GalleryPage where
  "example_page =
     \<lparr> allGalleryItems = map Some example_items,
       filteredItems = [], sortOption = ''newest'', activePresetFilter = ''all'',
       gallery_showAuthModal = False \<rparr>"

definition raw_item :: jsval where
  "raw_item = Obj [(''id'', Str ''a''), (''styleLoss'', Str ''n/a''),
                   (''contentLoss'', Num (Finite 2)),
                   (''parameters'', Obj [(''styleWeight'', Null)])]"

definition all_labels :: preset_labels where
  "all_labels sw cw = (if sw = cw then ''all'' else ''Custom'')"

definition raw_gallery_item :: jsval where
  "raw_gallery_item =
     Obj [(''id'', Str ''a''), (''timestamp'', Str ''2024-05-01T10:00:00Z''),
          (''styleLoss'', Num (Finite 1)), (''contentLoss'', Num (Finite 2)),
          (''processingTime'', Num (Finite 3)),
          (''parameters'', Obj [(''styleWeight'', Num (Finite 1)),
                                (''contentWeight'', Num (Finite 1)),
                                (''numSteps'', Num (Finite 300))])]"

definition gallery_page_init :: GalleryPage where
  "gallery_page_init =
     \<lparr> allGalleryItems = [], filteredItems = [], sortOption = ''newest'',
       activePresetFilter = ''all'', gallery_showAuthModal = False \<rparr>"

definition loaded_entries :: "gallery_entry list" where
  "loaded_entries =
     (case getGalleryItems example_host (HttpOk (Arr [Null, raw_gallery_item])) of
        Inr items \<Rightarrow> items
      | Inl err \<Rightarrow> [])"

definition page_loaded :: GalleryPage where
  "page_loaded =
     fst (loadGalleryItems_next example_host example_labels gallery_page_init loaded_entries)"

definition page_filtered :: GalleryPage where
  "page_filtered = fst (filterByPreset example_host example_labels page_loaded ''Balanced'')"

definition page_after_delete :: GalleryPage where
  "page_after_delete = fst (deleteItem_next example_host example_labels page_filtered ''a'')"

section \<open>Theorems\<close>

subsection \<open>Polling\<close>

lemma poll_run_Nil [simp]: "poll_run h s [] = s"
  by (simp add: poll_run_def)

lemma poll_run_Cons [simp]: "poll_run h s (e # es) = poll_run h (poll_step h s e) es"
  by (simp add: poll_run_def)

lemma poll_run_append: "poll_run h s (es @ fs) = poll_run h (poll_run h s es) fs"
  by (simp add: poll_run_def)

lemma poll_step_ended: "ended s \<noteq> None \<Longrightarrow> poll_step h s e = s"
  by (cases e) auto

lemma poll_run_ended: "ended s \<noteq> None \<Longrightarrow> poll_run h s es = s"
  by (induction es) (simp_all add: poll_step_ended)

lemma poll_step_invariant:
  assumes "poll_invariant s"
  shows "poll_invariant (poll_step h s e)"
proof (cases "ended s")
  case (Some x)
  then have "poll_step h s e = s" by (simp add: poll_step_ended)
  then show ?thesis using assms by simp
next
  case None
  then have running: "list_all still_running (emitted s)"
    using assms by (simp add: poll_invariant_def)
  show ?thesis
  proof (cases e)
    case Tick
    then show ?thesis using assms None by (simp add: poll_invariant_def)
  next
    case (Response k r)
    show ?thesis
    proof (cases "k \<in> set (inflight s)")
      case False
      then show ?thesis using assms Response by simp
    next
      case True
      then show ?thesis
        using None Response running
        by (cases "getJobStatus h r") (simp_all add: poll_invariant_def list_all_iff in_set_butlastD)
    qed
  qed
qed

lemma poll_run_invariant: "poll_invariant s \<Longrightarrow> poll_invariant (poll_run h s es)"
  by (induction es arbitrary: s) (simp_all add: poll_step_invariant del: poll_step.simps)

lemma pollJobStatus_invariant: "poll_invariant (pollJobStatus h es)"
  unfolding pollJobStatus_def
  by (rule poll_run_invariant) (simp add: poll_invariant_def poll_init_def)

lemma pollJobStatus_ended:
  "ended (pollJobStatus h evs) \<noteq> None \<Longrightarrow> pollJobStatus h (evs @ es) = pollJobStatus h evs"
  by (simp add: pollJobStatus_def poll_run_append poll_run_ended)

lemma getJobStatus_ok:
  "b \<noteq> Null \<Longrightarrow> b \<noteq> Undefined \<Longrightarrow> getJobStatus h (HttpOk b) = Inr (job_of_response b)"
  by (simp add: getJobStatus_def getJobStatus_map_def)

lemma poll_run_running:
  assumes "\<forall>b \<in> set bs. b \<noteq> Null \<and> b \<noteq> Undefined \<and> still_running (job_of_response b)"
    and "ended s = None" and "ticks s = k"
  shows "poll_run h s (answered_in_turn k (map HttpOk bs)) =
           s\<lparr> ticks := k + length bs, inflight := (if bs = [] then inflight s else []),
              emitted := emitted s @ map job_of_response bs \<rparr>"
  using assms
proof (induction bs arbitrary: s k)
  case Nil
  then show ?case by simp
next
  case (Cons b bs)
  let ?s1 = "s\<lparr> ticks := Suc k, inflight := [], emitted := emitted s @ [job_of_response b] \<rparr>"
  have step: "poll_step h (poll_step h s Tick) (Response k (HttpOk b)) = ?s1"
    using Cons.prems by (simp add: getJobStatus_ok)
  have "poll_run h ?s1 (answered_in_turn (Suc k) (map HttpOk bs)) =
          ?s1\<lparr> ticks := Suc k + length bs, inflight := (if bs = [] then inflight ?s1 else []),
               emitted := emitted ?s1 @ map job_of_response bs \<rparr>"
    using Cons.prems by (intro Cons.IH) simp_all
  then show ?case using step by simp
qed

lemma answered_in_turn_append:
  "answered_in_turn k (rs @ rs') = answered_in_turn k rs @ answered_in_turn (k + length rs) rs'"
  by (induction rs arbitrary: k) simp_all

lemma status_running:
  "get_prop b ''status'' \<in> {Str ''pending'', Str ''processing''} \<Longrightarrow> still_running (job_of_response b)"
  by (auto simp: still_running_def job_of_response_def)

lemma status_terminal:
  "get_prop b ''status'' \<in> {Str ''completed'', Str ''failed''} \<Longrightarrow> \<not> still_running (job_of_response b)"
  by (auto simp: still_running_def job_of_response_def)

text \<open>
  C1. When every status request is answered before the next tick, the loop hands on each
  answer whose status is pending or processing and keeps polling; the first answer whose
  status is completed or failed is handed on as well, the loop then completes, and whatever
  happens afterwards (\<open>es\<close>) neither emits a value nor issues a request: the requests
  issued are one per answer observed. For the answers pending, processing, completed this
  emits the three jobs in that order and stops; an answer failed ends the loop likewise.
  In any order of ticks and answers (\<open>evs\<close>), every job handed on before the last is
  pending or processing, a completed loop has handed on a last job that is neither, and
  once the loop has ended no later event changes anything. Step by step, for every such
  run: a tick hands nothing on and does not end the loop; an answer that is not awaited
  changes nothing; an awaited answer that yields a job hands that job on, issues no
  request, and ends the loop exactly when the job is neither pending nor processing; an
  awaited answer that fails hands nothing on and ends the loop with the error.
\<close>

theorem pollJobStatus_inclusive_terminal:
  assumes pre: "\<forall>b \<in> set pre. b \<noteq> Null \<and> b \<noteq> Undefined
                  \<and> get_prop b ''status'' \<in> {Str ''pending'', Str ''processing''}"
    and t: "t \<noteq> Null \<and> t \<noteq> Undefined
              \<and> get_prop t ''status'' \<in> {Str ''completed'', Str ''failed''}"
  shows "emitted (pollJobStatus h (answered_in_turn 0 (map HttpOk pre))) = map job_of_response pre
       \<and> ended (pollJobStatus h (answered_in_turn 0 (map HttpOk pre))) = None
       \<and> emitted (pollJobStatus h (answered_in_turn 0 (map HttpOk (pre @ [t])) @ es))
           = map job_of_response pre @ [job_of_response t]
       \<and> ended (pollJobStatus h (answered_in_turn 0 (map HttpOk (pre @ [t])) @ es)) = Some Completed
       \<and> ticks (pollJobStatus h (answered_in_turn 0 (map HttpOk (pre @ [t])) @ es)) = length pre + 1
       \<and> inflight (pollJobStatus h (answered_in_turn 0 (map HttpOk (pre @ [t])) @ es)) = []
       \<and> poll_invariant (pollJobStatus h evs)
       \<and> (ended (pollJobStatus h evs) \<noteq> None \<longrightarrow>
            pollJobStatus h (evs @ es) = pollJobStatus h evs)
       \<and> emitted (pollJobStatus h (evs @ [Tick])) = emitted (pollJobStatus h evs)
       \<and> ended (pollJobStatus h (evs @ [Tick])) = ended (pollJobStatus h evs)
       \<and> (k \<notin> set (inflight (pollJobStatus h evs)) \<longrightarrow>
            pollJobStatus h (evs @ [Response k r]) = pollJobStatus h evs)
       \<and> (ended (pollJobStatus h evs) = None \<and> k \<in> set (inflight (pollJobStatus h evs))
            \<and> getJobStatus h r = Inr job \<longrightarrow>
            emitted (pollJobStatus h (evs @ [Response k r])) = emitted (pollJobStatus h evs) @ [job]
            \<and> ticks (pollJobStatus h (evs @ [Response k r])) = ticks (pollJobStatus h evs)
            \<and> ended (pollJobStatus h (evs @ [Response k r]))
                = (if still_running job then None else Some Completed))
       \<and> (ended (pollJobStatus h evs) = None \<and> k \<in> set (inflight (pollJobStatus h evs))
            \<and> getJobStatus h r = Inl err \<longrightarrow>
            emitted (pollJobStatus h (evs @ [Response k r])) = emitted (pollJobStatus h evs)
            \<and> ended (pollJobStatus h (evs @ [Response k r])) = Some (Errored err))"
proof -
  let ?s = "pollJobStatus h (answered_in_turn 0 (map HttpOk pre))"
  have run: "\<forall>b \<in> set pre. b \<noteq> Null \<and> b \<noteq> Undefined \<and> still_running (job_of_response b)"
    using pre by (simp add: status_running)
  have s: "?s = poll_init\<lparr> ticks := length pre, inflight := [],
                          emitted := map job_of_response pre \<rparr>"
    unfolding pollJobStatus_def
    using poll_run_running [OF run, of poll_init 0 h] by (simp add: poll_init_def)
  let ?s' = "poll_init\<lparr> ticks := length pre + 1, inflight := [],
                emitted := map job_of_response pre @ [job_of_response t], ended := Some Completed \<rparr>"
  have last: "poll_run h ?s (answered_in_turn (length pre) [HttpOk t]) = ?s'"
    using t by (simp add: s poll_init_def getJobStatus_ok status_terminal)
  have "pollJobStatus h (answered_in_turn 0 (map HttpOk (pre @ [t])) @ es)
          = poll_run h (poll_run h ?s (answered_in_turn (length pre) [HttpOk t])) es"
    by (simp add: pollJobStatus_def answered_in_turn_append poll_run_append)
  also have "\<dots> = ?s'"
    unfolding last by (rule poll_run_ended) simp
  finally have fin: "pollJobStatus h (answered_in_turn 0 (map HttpOk (pre @ [t])) @ es) = ?s'" .
  have steps:
    "emitted (pollJobStatus h (evs @ [Tick])) = emitted (pollJobStatus h evs)"
    "ended (pollJobStatus h (evs @ [Tick])) = ended (pollJobStatus h evs)"
    "k \<notin> set (inflight (pollJobStatus h evs)) \<longrightarrow>
       pollJobStatus h (evs @ [Response k r]) = pollJobStatus h evs"
    "ended (pollJobStatus h evs) = None \<and> k \<in> set (inflight (pollJobStatus h evs))
       \<and> getJobStatus h r = Inr job \<longrightarrow>
       emitted (pollJobStatus h (evs @ [Response k r])) = emitted (pollJobStatus h evs) @ [job]
       \<and> ticks (pollJobStatus h (evs @ [Response k r])) = ticks (pollJobStatus h evs)
       \<and> ended (pollJobStatus h (evs @ [Response k r]))
           = (if still_running job then None else Some Completed)"
    "ended (pollJobStatus h evs) = None \<and> k \<in> set (inflight (pollJobStatus h evs))
       \<and> getJobStatus h r = Inl err \<longrightarrow>
       emitted (pollJobStatus h (evs @ [Response k r])) = emitted (pollJobStatus h evs)
       \<and> ended (pollJobStatus h (evs @ [Response k r])) = Some (Errored err)"
    by (simp_all add: pollJobStatus_def poll_run_append)
  have fixed:
    "emitted (pollJobStatus h (answered_in_turn 0 (map HttpOk pre))) = map job_of_response pre
     \<and> ended (pollJobStatus h (answered_in_turn 0 (map HttpOk pre))) = None
     \<and> emitted (pollJobStatus h (answered_in_turn 0 (map HttpOk (pre @ [t])) @ es))
         = map job_of_response pre @ [job_of_response t]
     \<and> ended (pollJobStatus h (answered_in_turn 0 (map HttpOk (pre @ [t])) @ es)) = Some Completed
     \<and> ticks (pollJobStatus h (answered_in_turn 0 (map HttpOk (pre @ [t])) @ es)) = length pre + 1
     \<and> inflight (pollJobStatus h (answered_in_turn 0 (map HttpOk (pre @ [t])) @ es)) = []"
    unfolding fin by (simp add: s poll_init_def)
  show ?thesis
    using fixed steps pollJobStatus_invariant [of h evs] pollJobStatus_ended [of h evs es]
    by blast
qed

theorem pollJobStatus_inclusive_terminal_witness:
  "emitted (pollJobStatus example_host
      (answered_in_turn 0 (map HttpOk
         [status_body ''pending'', status_body ''processing'', status_body ''completed''])
       @ [Tick, Response 3 (HttpOk (status_body ''pending''))]))
     = map job_of_response
         [status_body ''pending'', status_body ''processing'', status_body ''completed'']
   \<and> ticks (pollJobStatus example_host
      (answered_in_turn 0 (map HttpOk
         [status_body ''pending'', status_body ''processing'', status_body ''completed''])
       @ [Tick, Response 3 (HttpOk (status_body ''pending''))])) = 3
   \<and> emitted (pollJobStatus example_host
      (answered_in_turn 0 (map HttpOk [status_body ''pending'', status_body ''failed''])
       @ [Tick]))
     = map job_of_response [status_body ''pending'', status_body ''failed'']
   \<and> ended (pollJobStatus example_host
      (answered_in_turn 0 (map HttpOk [status_body ''pending'', status_body ''failed''])
       @ [Tick])) = Some Completed
   \<and> emitted (pollJobStatus example_host
        ([Tick, Tick] @ [Response 1 (HttpOk (status_body ''completed''))]))
     = [job_of_response (status_body ''completed'')]
   \<and> ended (pollJobStatus example_host
        ([Tick, Tick] @ [Response 1 (HttpOk (status_body ''completed''))])) = Some Completed"
proof -
  have run: "pollJobStatus example_host [Tick, Tick]
               = \<lparr> ticks = 2, inflight = [1], emitted = [], ended = None \<rparr>"
    by (simp add: pollJobStatus_def poll_init_def)
  have answer: "getJobStatus example_host (HttpOk (status_body ''completed''))
                  = Inr (job_of_response (status_body ''completed''))"
    by (simp add: getJobStatus_def getJobStatus_map_def status_body_def)
  have terminal: "\<not> still_running (job_of_response (status_body ''completed''))"
    by (simp add: still_running_def job_of_response_def status_body_def)
  show ?thesis
    using pollJobStatus_inclusive_terminal
            [of "[status_body ''pending'', status_body ''processing'']"
                "status_body ''completed''" example_host
                "[Tick, Response 3 (HttpOk (status_body ''pending''))]" "[Tick, Tick]" 1
                "HttpOk (status_body ''completed'')"
                "job_of_response (status_body ''completed'')"]
          pollJobStatus_inclusive_terminal
            [of "[status_body ''pending'']" "status_body ''failed''" example_host "[Tick]"]
          answer terminal
    by (simp add: status_body_def run)
qed

lemma poll_inflight_le:
  assumes "length (inflight s) \<le> 1"
  shows "length (inflight (poll_step h s e)) \<le> 1"
proof (cases e)
  case Tick
  then show ?thesis using assms by simp
next
  case (Response k r)
  have "length (removeAll k (inflight s)) \<le> 1"
    using assms length_removeAll_less_eq [of k "inflight s"] by linarith
  then show ?thesis using assms Response by (simp split: sum.splits)
qed

lemma poll_run_inflight_le: "length (inflight s) \<le> 1 \<Longrightarrow> length (inflight (poll_run h s es)) \<le> 1"
proof (induction es arbitrary: s)
  case Nil
  then show ?case by simp
next
  case (Cons e es)
  have "length (inflight (poll_step h s e)) \<le> 1"
    using Cons.prems by (rule poll_inflight_le)
  then show ?case using Cons.IH by simp
qed

text \<open>
  C2, as the code has it. The interval is 5000 ms unless the caller gives another. Every
  tick of a live loop issues a new status request whether or not the previous one has
  been answered, and the new request replaces the previous one: at most one request is
  awaited at any time, and an answer to a request that is no longer awaited changes
  nothing.
\<close>

theorem poll_tick_replaces_previous:
  "pollInterval_default = 5000
   \<and> length (inflight (pollJobStatus h es)) \<le> 1
   \<and> (ended (pollJobStatus h es) = None \<longrightarrow>
        ticks (pollJobStatus h (es @ [Tick])) = ticks (pollJobStatus h es) + 1
        \<and> inflight (pollJobStatus h (es @ [Tick])) = [ticks (pollJobStatus h es)])
   \<and> (k \<notin> set (inflight (pollJobStatus h es)) \<longrightarrow>
        pollJobStatus h (es @ [Response k r]) = pollJobStatus h es)"
proof -
  have "length (inflight poll_init) \<le> 1"
    by (simp add: poll_init_def)
  then have "length (inflight (poll_run h poll_init es)) \<le> 1"
    by (rule poll_run_inflight_le)
  then show ?thesis
    by (simp add: pollJobStatus_def poll_run_append pollInterval_default_def)
qed

theorem poll_tick_replaces_previous_witness:
  "inflight (pollJobStatus example_host [Tick, Tick]) = [1]
   \<and> pollJobStatus example_host ([Tick, Tick] @ [Response 0 (HttpOk (status_body ''completed''))])
       = pollJobStatus example_host [Tick, Tick]"
  using poll_tick_replaces_previous
          [of example_host "[Tick]" 5 "HttpOk Null"]
        poll_tick_replaces_previous
          [of example_host "[Tick, Tick]" 0 "HttpOk (status_body ''completed'')"]
  by (simp add: pollJobStatus_def poll_init_def)

text \<open>
  C2 as stated fails: after two ticks without an answer only the second request is
  awaited, and the late answer to the first one, even a completed one, is not delivered.
\<close>

theorem poll_overlap_counterexample:
  "inflight (pollJobStatus example_host [Tick, Tick]) = [1]
   \<and> emitted (pollJobStatus example_host
        [Tick, Tick, Response 0 (HttpOk (status_body ''completed''))]) = []
   \<and> ended (pollJobStatus example_host
        [Tick, Tick, Response 0 (HttpOk (status_body ''completed''))]) = None"
  by (simp add: pollJobStatus_def poll_init_def)


subsection \<open>Formatting\<close>

text \<open>
  C9. \<open>formatValue\<close> gives "1.5M" for 1500000, "2.5K" for 2500, "0.50" for 0.5, "--" for
  undefined, "N/A" for NaN and the infinity sign for positive infinity.
\<close>

theorem formatValue_examples:
  "formatValue h (Num (Finite 1500000)) = ''1.5M''
   \<and> formatValue h (Num (Finite 2500)) = ''2.5K''
   \<and> formatValue h (Num (Finite (1 / 2))) = ''0.50''
   \<and> formatValue h Undefined = ''--''
   \<and> formatValue h (Num NaN) = ''N/A''
   \<and> formatValue h (Num PosInf) = [CHR 0xE2, CHR 0x88, CHR 0x9E]"
  by code_simp

subsection \<open>Session\<close>

text \<open>
  C10. A stored user record that is present and that \<open>JSON.parse\<close> rejects makes
  \<open>getStoredUser\<close> return null, not raise; \<open>isAdmin\<close> is then false, and the service
  starts with no current user. The operations that read the record return a value in every
  case.
\<close>

theorem getStoredUser_corrupt_record:
  assumes "st userKey = Some userStr" and "JSON_parse h userStr = Inl ex"
  shows "getStoredUser h st = Inr Null
       \<and> isAdmin h st = Inr (Bool False)
       \<and> initial_currentUser h st = Inr Null
       \<and> \<not> isl (getStoredUser h st') \<and> \<not> isl (isAdmin h st')
       \<and> \<not> isl (initial_currentUser h st')"
proof -
  have stored: "getStoredUser h st = Inr Null"
    using assms by (cases "userStr = []") (simp_all add: getStoredUser_def)
  have total: "\<not> isl (getStoredUser h s)" for s
    by (simp add: getStoredUser_def split: option.splits sum.splits)
  have admin: "\<not> isl (isAdmin h s)" for s
    using total [of s] by (cases "getStoredUser h s") (simp_all add: isAdmin_def)
  show ?thesis
    using stored total [of st'] admin [of st']
    by (simp add: isAdmin_def initial_currentUser_def js_or_def)
qed

theorem getStoredUser_corrupt_record_witness:
  "getStoredUser example_host [userKey \<mapsto> ''{email:''] = Inr Null
   \<and> isAdmin example_host [userKey \<mapsto> ''{email:''] = Inr (Bool False)"
  using getStoredUser_corrupt_record
          [of "[userKey \<mapsto> ''{email:'']" "''{email:''" example_host "SyntaxError ''{email:''"]
  by (simp add: example_host_def)

lemma if_truthy_Some: "if_truthy x = Some s \<Longrightarrow> s \<noteq> [] \<and> x = Some s"
  by (cases x) (auto split: if_splits)

text \<open>
  C3, as the code has it. The sign-in form fails locally, with its message and without a
  request, exactly when neither a master password nor an email is filled in. With a
  master password the request is issued and carries the master password only, whether or
  not an email is filled in as well; with an email alone it carries the email.
\<close>

theorem onLogin_local_validation:
  "(snd (onLogin m) = [] \<longleftrightarrow>
      if_truthy (cred_masterPassword (loginCredentials m)) = None
      \<and> if_truthy (cred_email (loginCredentials m)) = None)
   \<and> (if_truthy (cred_masterPassword (loginCredentials m)) = None
        \<and> if_truthy (cred_email (loginCredentials m)) = None \<longrightarrow>
      fst (onLogin m) =
        m\<lparr> loginError := ''Please provide either email/password or master password'',
           isLoading := False \<rparr>)
   \<and> (if_truthy (cred_masterPassword (loginCredentials m)) = Some mp \<longrightarrow>
      snd (onLogin m) =
        [Request (HttpPostJson ''/auth/login''
           (Obj [(''password'', Str (cred_password (loginCredentials m))),
                 (''master_password'', Str mp)]))])
   \<and> (if_truthy (cred_masterPassword (loginCredentials m)) = None
        \<and> if_truthy (cred_email (loginCredentials m)) = Some em \<longrightarrow>
      snd (onLogin m) =
        [Request (HttpPostJson ''/auth/login''
           (Obj [(''password'', Str (cred_password (loginCredentials m))),
                 (''email'', Str em)]))])"
  by (auto simp: onLogin_def Let_def login_def login_body_def split: option.splits
      dest: if_truthy_Some)

theorem onLogin_local_validation_witness:
  "snd (onLogin \<lparr> loginCredentials =
                    \<lparr> cred_email = Some [], cred_password = ''pw'', cred_masterPassword = Some [] \<rparr>,
                  isLoading = False, loginError = [] \<rparr>) = []
   \<and> snd (onLogin \<lparr> loginCredentials =
                    \<lparr> cred_email = Some ''ada@example.org'', cred_password = ''pw'',
                      cred_masterPassword = Some [] \<rparr>,
                  isLoading = False, loginError = [] \<rparr>)
       = [Request (HttpPostJson ''/auth/login''
            (Obj [(''password'', Str ''pw''), (''email'', Str ''ada@example.org'')]))]"
  using onLogin_local_validation
          [of "\<lparr> loginCredentials =
                    \<lparr> cred_email = Some [], cred_password = ''pw'', cred_masterPassword = Some [] \<rparr>,
                  isLoading = False, loginError = [] \<rparr>" "''x''" "''y''"]
        onLogin_local_validation
          [of "\<lparr> loginCredentials =
                    \<lparr> cred_email = Some ''ada@example.org'', cred_password = ''pw'',
                      cred_masterPassword = Some [] \<rparr>,
                  isLoading = False, loginError = [] \<rparr>" "''x''" "''ada@example.org''"]
  by simp

text \<open>
  C3 as stated fails twice: with both a master password and an email filled in, the form
  issues the request; and \<open>login\<close> itself, given neither, issues the request all the
  same.
\<close>

theorem login_validation_counterexample:
  "snd (onLogin \<lparr> loginCredentials =
                    \<lparr> cred_email = Some ''ada@example.org'', cred_password = ''pw'',
                      cred_masterPassword = Some ''master'' \<rparr>,
                  isLoading = False, loginError = [] \<rparr>)
     = [Request (HttpPostJson ''/auth/login''
          (Obj [(''password'', Str ''pw''), (''master_password'', Str ''master'')]))]
   \<and> login \<lparr> cred_email = None, cred_password = ''pw'', cred_masterPassword = None \<rparr>
     = HttpPostJson ''/auth/login'' (Obj [(''password'', Str ''pw'')])"
  by (simp add: onLogin_def login_def login_body_def)

subsection \<open>Unauthorized answers\<close>

lemma auth_message_recognised: "sublist ''Authentication required'' auth_required_message"
proof -
  have "prefix ''Authentication required'' auth_required_message"
    by (simp add: auth_required_message_def)
  then show ?thesis by (rule prefix_imp_sublist)
qed

lemma deleteItem_error_unauthorized:
  "http_status e = 401 \<Longrightarrow>
     deleteItem_error p (deleteGalleryItem_catchError e) = (p\<lparr> gallery_showAuthModal := True \<rparr>, [])"
  by (simp add: deleteItem_error_def deleteGalleryItem_catchError_def auth_message_recognised)

text \<open>
  C4, as the code has it. An answer with status 401 to the style-transfer submission or
  to the gallery delete reaches the subscriber as the one error "Authentication required.
  Please sign in.", whatever else the answer carries, and the gallery page, which reads
  the message and not the status, opens the sign-in modal on it. None of the admin page's
  seven calls has a translation: the callback receives the transport's error as it is,
  and what it does is the same for every failure: it clears its busy flag
  (\<open>isLoadingRequests\<close> for \<open>loadRequests\<close>, \<open>isLoadingUsers\<close> for \<open>loadUsers\<close>,
  \<open>isProcessing\<close> for the other five) and changes nothing else; the callback of
  \<open>createUser\<close> also alerts the detail the server sent, or "Failed to create user" when
  there is none, and that does not depend on the status either.
\<close>

theorem unauthorized_translated_by_services:
  "(http_status e = 401 \<longrightarrow>
      transferStyle_failure h e = Thrown (Error auth_required_message)
      \<and> deleteGalleryItem_failure e = Thrown (Error auth_required_message)
      \<and> deleteItem_error p (deleteGalleryItem_catchError e)
          = (p\<lparr> gallery_showAuthModal := True \<rparr>, []))
   \<and> loadRequests_error a (loadRequests_failure e) = loadRequests_error a (loadRequests_failure e')
   \<and> loadRequests_failure e = Untranslated e
   \<and> loadUsers_failure e = Untranslated e
   \<and> approveRequest_failure e = Untranslated e
   \<and> confirmReject_failure e = Untranslated e
   \<and> deleteRequest_failure e = Untranslated e
   \<and> createUser_failure e = Untranslated e
   \<and> deleteUser_failure e = Untranslated e
   \<and> loadRequests_error a err = a\<lparr> isLoadingRequests := False \<rparr>
   \<and> loadUsers_error a err = a\<lparr> isLoadingUsers := False \<rparr>
   \<and> approveRequest_error a err = a\<lparr> admin_isProcessing := False \<rparr>
   \<and> confirmReject_error a err = a\<lparr> admin_isProcessing := False \<rparr>
   \<and> deleteRequest_error a err = a\<lparr> admin_isProcessing := False \<rparr>
   \<and> deleteUser_error a err = a\<lparr> admin_isProcessing := False \<rparr>
   \<and> createUser_error h a (createUser_failure e)
       = (a\<lparr> admin_isProcessing := False \<rparr>,
          [Alert (js_concat h [] (js_or (error_detail e) (Str ''Failed to create user'')))])
   \<and> createUser_error h a (createUser_failure (e\<lparr> http_status := n \<rparr>))
       = createUser_error h a (createUser_failure e)"
  by (simp add: transferStyle_failure_def transferStyle_catchError_def
      deleteGalleryItem_failure_def deleteGalleryItem_catchError_def
      deleteItem_error_def auth_message_recognised loadRequests_error_def
      loadRequests_failure_def loadUsers_failure_def approveRequest_failure_def
      confirmReject_failure_def deleteRequest_failure_def createUser_failure_def
      deleteUser_failure_def loadUsers_error_def approveRequest_error_def
      confirmReject_error_def deleteRequest_error_def deleteUser_error_def
      createUser_error_def error_detail_def)

theorem unauthorized_translated_by_services_witness:
  "transferStyle_failure example_host unauthorized
     = Thrown (Error ''Authentication required. Please sign in.'')
   \<and> deleteGalleryItem_failure unauthorized
     = Thrown (Error ''Authentication required. Please sign in.'')
   \<and> createUser_error example_host example_admin (createUser_failure unauthorized)
     = (example_admin\<lparr> admin_isProcessing := False \<rparr>, [Alert ''Not authenticated''])"
proof -
  have status: "http_status unauthorized = 401"
    by (simp add: unauthorized_def)
  have detail: "error_detail unauthorized = Str ''Not authenticated''"
    by (simp add: unauthorized_def error_detail_def)
  note translated =
    unauthorized_translated_by_services
      [of unauthorized example_host example_page example_admin unauthorized
          "Thrown (Error [])" 401]
  from translated status have transfer:
    "transferStyle_failure example_host unauthorized = Thrown (Error auth_required_message)"
    by blast
  from translated status have delete:
    "deleteGalleryItem_failure unauthorized = Thrown (Error auth_required_message)"
    by blast
  from translated have create:
    "createUser_error example_host example_admin (createUser_failure unauthorized)
       = (example_admin\<lparr> admin_isProcessing := False \<rparr>,
          [Alert (js_concat example_host []
                   (js_or (error_detail unauthorized) (Str ''Failed to create user'')))])"
    by blast
  show ?thesis
    unfolding transfer delete create
    by (simp add: detail js_or_def auth_required_message_def)
qed

text \<open>
  C4 as stated fails on the admin page: a 401 answer to \<open>loadRequests\<close> reaches the
  callback untranslated, and the callback only clears the loading flag.
\<close>

theorem admin_unauthorized_counterexample:
  "loadRequests_failure unauthorized \<noteq> Thrown (Error auth_required_message)
   \<and> loadRequests_error
        \<lparr> requests = Arr [], users = Arr [], isLoadingRequests = True,
          isLoadingUsers = False, admin_isProcessing = False \<rparr>
        (loadRequests_failure unauthorized)
     = \<lparr> requests = Arr [], users = Arr [], isLoadingRequests = False,
         isLoadingUsers = False, admin_isProcessing = False \<rparr>"
  by (simp add: loadRequests_failure_def loadRequests_error_def)

subsection \<open>Submitting a job\<close>

text \<open>
  C7, as the code has it. With either image missing, \<open>onApplyStyle\<close> returns at once:
  no request, no change of state, no message. The flag handed to the controls,
  \<open>canApplyStyle\<close>, is false when an image is missing and when a job is in progress.
\<close>

theorem onApplyStyle_missing_image:
  "(selected_file (contentImage p) = None \<or> selected_file (styleImage p) = None \<longrightarrow>
      onApplyStyle h st p params = (p, []))
   \<and> (selected_file (contentImage p) = None \<or> selected_file (styleImage p) = None
        \<or> isProcessing p \<longrightarrow> \<not> canApplyStyle p)"
  by (auto simp: onApplyStyle_def canApplyStyle_def split: option.splits)

theorem onApplyStyle_missing_image_witness:
  "onApplyStyle example_host [tokenKey \<mapsto> ''t''] (page_in_progress\<lparr> styleImage := None \<rparr>)
     example_params = (page_in_progress\<lparr> styleImage := None \<rparr>, [])
   \<and> \<not> canApplyStyle page_in_progress"
  using onApplyStyle_missing_image
          [of "page_in_progress\<lparr> styleImage := None \<rparr>" example_host "[tokenKey \<mapsto> ''t'']"
              example_params]
        onApplyStyle_missing_image [of page_in_progress]
  by (simp add: page_in_progress_def selected_file_def)

text \<open>
  C7 as stated fails: \<open>onApplyStyle\<close> does not look at the flag, and with both images
  present and a session it issues the request while a job is in progress.
\<close>

theorem onApplyStyle_in_progress_counterexample:
  "isProcessing page_in_progress
   \<and> snd (onApplyStyle example_host [tokenKey \<mapsto> ''t''] page_in_progress example_params)
     = [Request (transferStyle example_host (File ''content.png'') (File ''style.png'')
                   example_params)]"
  by (simp add: page_in_progress_def onApplyStyle_def selected_file_def isAuthenticated_def
      getToken_def)

subsection \<open>Gallery\<close>

lemma array_filter_total:
  "(\<And>x. x \<in> set xs \<Longrightarrow> keep x = Inr (P x)) \<Longrightarrow> array_filter keep xs = Inr (filter P xs)"
  by (induction xs) simp_all

lemma mset_sort_insert:
  "sort_insert cmp x xs = Inr ys \<Longrightarrow> mset ys = add_mset x (mset xs)"
  by (induction xs arbitrary: ys) (auto split: sum.splits if_splits)

lemma mset_array_sort: "array_sort cmp xs = Inr ys \<Longrightarrow> mset ys = mset xs"
  by (induction xs arbitrary: ys) (auto split: sum.splits dest: mset_sort_insert)

lemma sort_insert_total:
  "(\<And>y. y \<in> set xs \<Longrightarrow> \<not> isl (cmp x y)) \<Longrightarrow> \<not> isl (sort_insert cmp x xs)"
proof (induction xs)
  case Nil
  then show ?case by simp
next
  case (Cons y ys)
  have "\<not> isl (cmp x y)"
    using Cons.prems by simp
  then obtain v where v: "cmp x y = Inr v"
    by (cases "cmp x y") simp_all
  have "\<not> isl (sort_insert cmp x ys)"
    using Cons.prems by (intro Cons.IH) simp_all
  then show ?case
    using v by (cases "sort_insert cmp x ys") simp_all
qed

lemma array_sort_total:
  "(\<And>x y. x \<in> set xs \<Longrightarrow> y \<in> set xs \<Longrightarrow> \<not> isl (cmp x y)) \<Longrightarrow> \<not> isl (array_sort cmp xs)"
proof (induction xs)
  case Nil
  then show ?case by simp
next
  case (Cons x xs)
  have "\<not> isl (array_sort cmp xs)"
    using Cons.prems by (intro Cons.IH) simp_all
  then obtain ys where ys: "array_sort cmp xs = Inr ys"
    by (cases "array_sort cmp xs") simp_all
  have "set ys = set xs"
    using mset_array_sort [OF ys] by (metis set_mset_mset)
  then have "\<not> isl (sort_insert cmp x ys)"
    using Cons.prems by (intro sort_insert_total) simp_all
  then show ?case using ys by simp
qed

lemma comparator_total: "\<not> isl (comparator h key (Some a) (Some b))"
  by (simp add: comparator_def entry_steps_def)

lemma view_all_contents:
  "mset (filteredItems (fst (filterByPreset h L p ''all''))) = mset (allGalleryItems p)"
  by (cases "array_sort (comparator h (sortOption p)) (allGalleryItems p)")
     (simp_all add: filterByPreset_def applySortingAndFilters_def mset_array_sort)

lemma view_well_formed:
  assumes "allGalleryItems p = map Some gs"
  shows "snd (applySortingAndFilters h L p) = None
       \<and> mset (filteredItems (fst (applySortingAndFilters h L p)))
           = image_mset Some (filter_mset (passes_filter L (activePresetFilter p)) (mset gs))"
proof -
  let ?keep = "\<lambda>item. case itemPresetLabel h L item of
                         Inl ex \<Rightarrow> Inl ex | Inr l \<Rightarrow> Inr (l = activePresetFilter p)"
  let ?P = "\<lambda>item. \<exists>g. item = Some g \<and> item_label L g = activePresetFilter p"
  define filtered where
    "filtered = (if activePresetFilter p = ''all'' then map Some gs
                 else map Some (filter (\<lambda>g. item_label L g = activePresetFilter p) gs))"
  have keep: "array_filter ?keep (map Some gs)
                = Inr (map Some (filter (\<lambda>g. item_label L g = activePresetFilter p) gs))"
    by (induction gs) (simp_all add: itemPresetLabel_def item_label_def getBalanceLabel_def)
  have filt: "(if activePresetFilter p = ''all'' then Inr (allGalleryItems p)
               else array_filter ?keep (allGalleryItems p)) = Inr filtered"
    using assms keep by (simp add: filtered_def)
  have wf: "set filtered \<subseteq> range Some"
    by (auto simp: filtered_def)
  have "\<not> isl (array_sort (comparator h (sortOption p)) filtered)"
  proof (rule array_sort_total)
    fix x y assume x: "x \<in> set filtered" and y: "y \<in> set filtered"
    from x wf obtain a where "x = Some a" by blast
    moreover from y wf obtain b where "y = Some b" by blast
    ultimately show "\<not> isl (comparator h (sortOption p) x y)"
      by (simp add: comparator_total)
  qed
  then obtain ys where ys: "array_sort (comparator h (sortOption p)) filtered = Inr ys"
    by (cases "array_sort (comparator h (sortOption p)) filtered") simp_all
  have res: "applySortingAndFilters h L p = (p\<lparr> filteredItems := ys \<rparr>, None)"
    unfolding applySortingAndFilters_def filt by (simp add: ys)
  have "mset ys = mset filtered"
    using ys by (rule mset_array_sort)
  also have "\<dots> = image_mset Some (filter_mset (passes_filter L (activePresetFilter p)) (mset gs))"
    by (simp add: filtered_def passes_filter_def [abs_def])
  finally show ?thesis by (simp add: res)
qed

lemma sum_list_filter_mset:
  "distinct ks \<Longrightarrow>
     sum_list (map (\<lambda>k. filter_mset (\<lambda>x. f x = k) M) ks) = filter_mset (\<lambda>x. f x \<in> set ks) M"
proof (induction ks)
  case Nil
  then show ?case by simp
next
  case (Cons k ks)
  have "filter_mset (\<lambda>x. f x = k) M + filter_mset (\<lambda>x. f x \<in> set ks) M
          = filter_mset (\<lambda>x. f x \<in> set (k # ks)) M"
    using Cons.prems by (intro multiset_eqI) auto
  then show ?case using Cons by simp
qed

lemma filter_mset_own_labels:
  "filter_mset (\<lambda>x. f x \<in> set (remdups (map f xs))) (mset xs) = mset xs"
proof -
  have "filter_mset (\<lambda>x. f x \<in> set (remdups (map f xs))) (mset xs)
          = filter_mset (\<lambda>x. True) (mset xs)"
    by (rule filter_mset_cong) auto
  then show ?thesis by simp
qed

text \<open>
  C6, as the code has it. Filtering by 'all' gives a view with the same entries as the
  base collection, whatever it holds: the same multiset, hence the same ids and the same
  count. When every entry of the base collection is an item, no filter key raises an
  exception, and filtering by a key other than 'all' gives exactly the items whose label
  is that key; when, moreover, no item is labelled 'all', the views over the distinct
  labels present add up to the base collection, each item in the view of its own label and
  in no other.
\<close>

theorem filter_views_partition:
  "mset (filteredItems (fst (filterByPreset h L p ''all''))) = mset (allGalleryItems p)
   \<and> mset (map entry_id (filteredItems (fst (filterByPreset h L p ''all''))))
       = mset (map entry_id (allGalleryItems p))
   \<and> length (filteredItems (fst (filterByPreset h L p ''all''))) = length (allGalleryItems p)
   \<and> (allGalleryItems p = map Some gs \<longrightarrow>
        snd (filterByPreset h L p key) = None
        \<and> (key \<noteq> ''all'' \<longrightarrow>
             mset (filteredItems (fst (filterByPreset h L p key)))
               = image_mset Some (filter_mset (\<lambda>g. item_label L g = key) (mset gs)))
        \<and> (''all'' \<notin> set (map (item_label L) gs) \<longrightarrow>
             sum_list (map (\<lambda>k. mset (filteredItems (fst (filterByPreset h L p k))))
                        (remdups (map (item_label L) gs)))
               = mset (allGalleryItems p)))"
proof -
  let ?view = "\<lambda>k. filteredItems (fst (filterByPreset h L p k))"
  have all: "mset (?view ''all'') = mset (allGalleryItems p)"
    by (rule view_all_contents)
  have ids: "mset (map entry_id (?view ''all'')) = mset (map entry_id (allGalleryItems p))"
    using all by (metis mset_map)
  have len: "length (?view ''all'') = length (allGalleryItems p)"
    using all by (metis size_mset)
  have wf: "snd (filterByPreset h L p key) = None
        \<and> (key \<noteq> ''all'' \<longrightarrow>
             mset (?view key) = image_mset Some (filter_mset (\<lambda>g. item_label L g = key) (mset gs)))
        \<and> (''all'' \<notin> set (map (item_label L) gs) \<longrightarrow>
             sum_list (map (\<lambda>k. mset (?view k)) (remdups (map (item_label L) gs)))
               = mset (allGalleryItems p))"
    if base: "allGalleryItems p = map Some gs"
  proof -
    have view: "snd (filterByPreset h L p k) = None
                \<and> mset (?view k) = image_mset Some (filter_mset (passes_filter L k) (mset gs))" for k
      using view_well_formed [of "p\<lparr> activePresetFilter := k \<rparr>" gs h L] base
      by (simp add: filterByPreset_def)
    have other: "mset (?view k) = image_mset Some (filter_mset (\<lambda>g. item_label L g = k) (mset gs))"
      if "k \<noteq> ''all''" for k
      using that view [of k] by (simp add: passes_filter_def [abs_def])
    have part: "sum_list (map (\<lambda>k. mset (?view k)) (remdups (map (item_label L) gs)))
                  = mset (allGalleryItems p)"
      if none: "''all'' \<notin> set (map (item_label L) gs)"
    proof -
      have views: "map (\<lambda>k. mset (?view k)) (remdups (map (item_label L) gs))
              = map (\<lambda>k. image_mset Some (filter_mset (\<lambda>g. item_label L g = k) (mset gs)))
                  (remdups (map (item_label L) gs))"
      proof (rule map_cong [OF refl])
        fix k assume "k \<in> set (remdups (map (item_label L) gs))"
        then have "k \<in> set (map (item_label L) gs)" by simp
        with none have "k \<noteq> ''all''" by blast
        then show "mset (?view k)
                     = image_mset Some (filter_mset (\<lambda>g. item_label L g = k) (mset gs))"
          by (rule other)
      qed
      have images:
        "sum_list (map (\<lambda>k. image_mset Some (filter_mset (\<lambda>g. item_label L g = k) (mset gs))) ks)
           = image_mset Some (sum_list (map (\<lambda>k. filter_mset (\<lambda>g. item_label L g = k) (mset gs)) ks))"
        for ks
        by (induction ks) simp_all
      have "sum_list (map (\<lambda>k. mset (?view k)) (remdups (map (item_label L) gs)))
              = image_mset Some (mset gs)"
        unfolding views images sum_list_filter_mset [OF distinct_remdups] filter_mset_own_labels
        by (rule refl)
      then show ?thesis by (simp add: base)
    qed
    show ?thesis
      using view [of key] other [of key] part by blast
  qed
  show ?thesis
    using all ids len wf by blast
qed

theorem filter_views_partition_witness:
  "allGalleryItems example_page = map Some example_items
   \<and> ''Balanced'' \<noteq> ''all''
   \<and> snd (filterByPreset example_host example_labels example_page ''Balanced'') = None
   \<and> mset (filteredItems (fst (filterByPreset example_host example_labels example_page ''Balanced'')))
       = {# Some (example_item ''a'' 1 1), Some (example_item ''c'' 2 2) #}
   \<and> ''all'' \<notin> set (map (item_label example_labels) example_items)
   \<and> sum_list (map (\<lambda>k. mset (filteredItems
                  (fst (filterByPreset example_host example_labels example_page k))))
         (remdups (map (item_label example_labels) example_items)))
       = mset (allGalleryItems example_page)"
proof -
  note views =
    filter_views_partition [of example_host example_labels example_page example_items "''Balanced''"]
  have base: "allGalleryItems example_page = map Some example_items"
    by (simp add: example_page_def)
  have key: "''Balanced'' \<noteq> ''all''"
    by simp
  have labels: "map (item_label example_labels) example_items = [''Balanced'', ''Custom'', ''Balanced'']"
    by (simp add: example_items_def example_item_def example_labels_def item_label_def)
  have none: "''all'' \<notin> set (map (item_label example_labels) example_items)"
    unfolding labels by simp
  have balanced:
    "image_mset Some (filter_mset (\<lambda>g. item_label example_labels g = ''Balanced'') (mset example_items))
     = {# Some (example_item ''a'' 1 1), Some (example_item ''c'' 2 2) #}"
    by (simp add: example_items_def example_item_def example_labels_def item_label_def)
  from views base have
    "snd (filterByPreset example_host example_labels example_page ''Balanced'') = None"
    by blast
  moreover from views base key have
    "mset (filteredItems (fst (filterByPreset example_host example_labels example_page ''Balanced'')))
       = image_mset Some (filter_mset (\<lambda>g. item_label example_labels g = ''Balanced'')
           (mset example_items))"
    by blast
  moreover from views base none have
    "sum_list (map (\<lambda>k. mset (filteredItems
                  (fst (filterByPreset example_host example_labels example_page k))))
         (remdups (map (item_label example_labels) example_items)))
       = mset (allGalleryItems example_page)"
    by blast
  ultimately show ?thesis
    using base key none balanced by simp
qed

text \<open>
  C6 as stated fails twice. With a classifier that labels two of three items 'all', the
  views over the distinct labels present, Custom and all, are [b] and [a, b, c]: item b is
  in both. And on a base collection that holds the empty object, filtering by a key other
  than 'all' raises a TypeError and the view stays as it was.
\<close>

theorem filter_partition_counterexample:
  "remdups (map (item_label all_labels) example_items) = [''Custom'', ''all'']
   \<and> map (\<lambda>k. map entry_id (filteredItems (fst (filterByPreset example_host all_labels example_page k))))
        [''Custom'', ''all'']
     = [[Str ''b''], [Str ''a'', Str ''b'', Str ''c'']]
   \<and> filterByPreset example_host example_labels
        (example_page\<lparr> allGalleryItems := [None, Some (example_item ''a'' 1 1)] \<rparr>) ''Balanced''
     = (example_page\<lparr> allGalleryItems := [None, Some (example_item ''a'' 1 1)],
                      activePresetFilter := ''Balanced'' \<rparr>,
        Some (TypeError (TypeErrorMessage example_host Undefined ''styleWeight'')))"
  by code_simp

text \<open>
  What holds of \<open>deleteItem\<close> on every page: without a session it opens the sign-in
  modal, issues no request and leaves the page otherwise as it was; a 401 answer to the
  delete opens the modal as well; the handler never touches the base collection; with a
  session and the user's confirmation the delete request for that id is issued; on its
  success the base collection keeps, in order, exactly the entries whose id is not the
  targeted one. When every entry is an item, the recomputation that follows raises no
  exception and the view holds exactly the remaining items that pass the filter.
\<close>

lemma deleteItem_base_collection:
  "(\<not> isAuthenticated st \<longrightarrow>
      deleteItem st confirmed p ident = (p\<lparr> gallery_showAuthModal := True \<rparr>, []))
   \<and> allGalleryItems (fst (deleteItem st confirmed p ident)) = allGalleryItems p
   \<and> (http_status e = 401 \<longrightarrow>
      deleteItem_error p (deleteGalleryItem_catchError e)
        = (p\<lparr> gallery_showAuthModal := True \<rparr>, []))
   \<and> (isAuthenticated st \<and> confirmed \<longrightarrow>
      deleteItem st confirmed p ident = (p, [Request (HttpDelete (''/gallery/'' @ ident))]))
   \<and> allGalleryItems (fst (deleteItem_next h L p ident))
       = filter (\<lambda>item. entry_id item \<noteq> Str ident) (allGalleryItems p)
   \<and> (allGalleryItems p = map Some gs \<longrightarrow>
        snd (deleteItem_next h L p ident) = None
        \<and> mset (filteredItems (fst (deleteItem_next h L p ident)))
            = image_mset Some
                (filter_mset (passes_filter L (activePresetFilter p))
                   (filter_mset (\<lambda>g. itemId g \<noteq> Str ident) (mset gs))))"
proof -
  let ?p' = "p\<lparr> allGalleryItems := filter (\<lambda>item. entry_id item \<noteq> Str ident) (allGalleryItems p) \<rparr>"
  have base: "allGalleryItems (fst (deleteItem_next h L p ident))
                = filter (\<lambda>item. entry_id item \<noteq> Str ident) (allGalleryItems p)"
    by (simp add: deleteItem_next_def applySortingAndFilters_def split: sum.splits)
  have view: "snd (deleteItem_next h L p ident) = None
        \<and> mset (filteredItems (fst (deleteItem_next h L p ident)))
            = image_mset Some
                (filter_mset (passes_filter L (activePresetFilter p))
                   (filter_mset (\<lambda>g. itemId g \<noteq> Str ident) (mset gs)))"
    if items: "allGalleryItems p = map Some gs"
  proof -
    have "allGalleryItems ?p' = map Some (filter (\<lambda>g. itemId g \<noteq> Str ident) gs)"
      by (simp add: items filter_map comp_def entry_id_def)
    from view_well_formed [OF this, of h L] show ?thesis
      by (simp add: deleteItem_next_def)
  qed
  have handler: "allGalleryItems (fst (deleteItem st confirmed p ident)) = allGalleryItems p"
    by (simp add: deleteItem_def)
  have unauth: "\<not> isAuthenticated st \<longrightarrow>
      deleteItem st confirmed p ident = (p\<lparr> gallery_showAuthModal := True \<rparr>, [])"
    by (simp add: deleteItem_def)
  have auth: "isAuthenticated st \<and> confirmed \<longrightarrow>
      deleteItem st confirmed p ident = (p, [Request (HttpDelete (''/gallery/'' @ ident))])"
    by (simp add: deleteItem_def deleteGalleryItem_def)
  show ?thesis
    using base view handler unauth auth deleteItem_error_unauthorized [of e p]
    by blast
qed

text \<open>
  C5. The claim fails on the code when the gallery answer holds a null entry, which
  ingestion turns into the empty object. The items load and the view shows both entries.
  Choosing the filter 'Balanced' raises a TypeError and leaves the view as it was. The
  delete of item a then succeeds, the base collection keeps only the empty object, the
  recomputation raises the TypeError again, and the view still shows the deleted item.
\<close>

theorem deleteItem_stale_view:
  "map entry_id loaded_entries = [Undefined, Str ''a'']
   \<and> snd (loadGalleryItems_next example_host example_labels gallery_page_init loaded_entries)
       = None
   \<and> map entry_id (filteredItems page_loaded) = [Undefined, Str ''a'']
   \<and> snd (filterByPreset example_host example_labels page_loaded ''Balanced'')
       = Some (TypeError (TypeErrorMessage example_host Undefined ''styleWeight''))
   \<and> activePresetFilter page_filtered = ''Balanced''
   \<and> map entry_id (filteredItems page_filtered) = [Undefined, Str ''a'']
   \<and> map entry_id (allGalleryItems page_after_delete) = [Undefined]
   \<and> snd (deleteItem_next example_host example_labels page_filtered ''a'')
       = Some (TypeError (TypeErrorMessage example_host Undefined ''styleWeight''))
   \<and> map entry_id (filteredItems page_after_delete) = [Undefined, Str ''a'']"
  by code_simp

subsection \<open>Ingestion\<close>

lemma ensureNumber_not_NaN: "ensureNumber h v \<noteq> NaN"
  by (simp add: ensureNumber_def isNaN_def)

lemma ensureNumber_zero:
  "v = Undefined \<or> v = Null \<or> Number h v = NaN \<Longrightarrow> ensureNumber h v = Finite 0"
  by (auto simp: ensureNumber_def isNaN_def)

text \<open>
  C8, as the code has it. For a truthy raw item, each of \<open>styleLoss\<close>, \<open>contentLoss\<close>,
  \<open>processingTime\<close>, \<open>parameters.styleWeight\<close> and \<open>parameters.contentWeight\<close> is
  \<open>ensureNumber\<close> of the incoming value: 0 when that value is missing, null, or converts
  to NaN, its conversion to a number otherwise, and never NaN. \<open>parameters.numSteps\<close> is
  300 when the incoming value is missing or otherwise falsy, and the incoming value as it
  is otherwise.
\<close>

theorem mapGalleryItem_numeric_fields:
  assumes "mapGalleryItem h item = Some g"
  shows "styleLoss g = ensureNumber h (get_prop item ''styleLoss'')
       \<and> contentLoss g = ensureNumber h (get_prop item ''contentLoss'')
       \<and> processingTime g = ensureNumber h (get_prop item ''processingTime'')
       \<and> styleWeight (parameters g)
           = ensureNumber h (opt_prop (get_prop item ''parameters'') ''styleWeight'')
       \<and> contentWeight (parameters g)
           = ensureNumber h (opt_prop (get_prop item ''parameters'') ''contentWeight'')
       \<and> (\<forall>v. ensureNumber h v \<noteq> NaN)
       \<and> (\<forall>v. v = Undefined \<or> v = Null \<or> Number h v = NaN \<longrightarrow> ensureNumber h v = Finite 0)
       \<and> (\<forall>v. v \<noteq> Undefined \<and> v \<noteq> Null \<and> Number h v \<noteq> NaN \<longrightarrow>
              ensureNumber h v = Number h v)
       \<and> (\<not> truthy (opt_prop (get_prop item ''parameters'') ''numSteps'') \<longrightarrow>
            numSteps (parameters g) = Num (Finite 300))
       \<and> (truthy (opt_prop (get_prop item ''parameters'') ''numSteps'') \<longrightarrow>
            numSteps (parameters g) = opt_prop (get_prop item ''parameters'') ''numSteps'')"
proof -
  have g: "truthy item" "g = the (mapGalleryItem h item)"
    using assms by (auto simp: mapGalleryItem_def split: if_splits)
  have fields: "styleLoss g = ensureNumber h (get_prop item ''styleLoss'')"
    "contentLoss g = ensureNumber h (get_prop item ''contentLoss'')"
    "processingTime g = ensureNumber h (get_prop item ''processingTime'')"
    "styleWeight (parameters g)
       = ensureNumber h (opt_prop (get_prop item ''parameters'') ''styleWeight'')"
    "contentWeight (parameters g)
       = ensureNumber h (opt_prop (get_prop item ''parameters'') ''contentWeight'')"
    using g by (simp_all add: mapGalleryItem_def)
  have steps: "\<not> truthy (opt_prop (get_prop item ''parameters'') ''numSteps'') \<longrightarrow>
            numSteps (parameters g) = Num (Finite 300)"
    using g by (simp add: mapGalleryItem_def js_or_def)
  have keep: "\<forall>v. v \<noteq> Undefined \<and> v \<noteq> Null \<and> Number h v \<noteq> NaN \<longrightarrow>
              ensureNumber h v = Number h v"
    by (simp add: ensureNumber_def isNaN_def)
  have kept: "truthy (opt_prop (get_prop item ''parameters'') ''numSteps'') \<longrightarrow>
            numSteps (parameters g) = opt_prop (get_prop item ''parameters'') ''numSteps''"
    using g by (simp add: mapGalleryItem_def js_or_def)
  show ?thesis
    using fields steps kept keep ensureNumber_not_NaN [of h] ensureNumber_zero [of _ h]
    by blast
qed

theorem mapGalleryItem_numeric_fields_witness:
  "map_option styleLoss (mapGalleryItem example_host raw_item) = Some (Finite 0)
   \<and> map_option contentLoss (mapGalleryItem example_host raw_item) = Some (Finite 2)
   \<and> map_option (styleWeight \<circ> parameters) (mapGalleryItem example_host raw_item)
       = Some (Finite 0)"
proof -
  obtain g where g: "mapGalleryItem example_host raw_item = Some g"
    by (simp add: mapGalleryItem_def raw_item_def)
  have "Number example_host (Str ''n/a'') = NaN"
    by (simp add: example_host_def)
  then show ?thesis
    using mapGalleryItem_numeric_fields [OF g] g
    by (simp add: raw_item_def ensureNumber_def isNaN_def)
qed

text \<open>
  C8 as stated fails on \<open>numSteps\<close>: a raw item without it is given 300 steps, not 0.
\<close>

theorem numSteps_default_counterexample:
  "map_option (numSteps \<circ> parameters) (mapGalleryItem example_host raw_item)
     = Some (Num (Finite 300))
   \<and> Num (Finite 300) \<noteq> Num (Finite 0)"
  by (simp add: mapGalleryItem_def raw_item_def js_or_def)

end
